theory Spec2Isabelle
  imports Main "HOL-Library.Sublist" "HOL-Library.AList"
begin

section \<open>Strings and values of the host language\<close>

text \<open>
  The pipeline of \<^verbatim>\<open>src/utils/sitemap.ts\<close> is TypeScript. A string is modelled as a
  \<^typ>\<open>string\<close> (a list of 8-bit characters; text outside ASCII stands as its UTF-8
  bytes), so lengths count bytes and case conversion acts on the ASCII letters. None of
  the statements below depends on a character outside ASCII.
\<close>

definition toLowerChar :: "char \<Rightarrow> char" where
  "toLowerChar c =
     (let n = (of_char c :: nat) in if 65 \<le> n \<and> n \<le> 90 then char_of (n + 32) else c)"

definition toUpperChar :: "char \<Rightarrow> char" where
  "toUpperChar c =
     (let n = (of_char c :: nat) in if 97 \<le> n \<and> n \<le> 122 then char_of (n - 32) else c)"

definition toLowerCase :: "string \<Rightarrow> string" where
  "toLowerCase s = map toLowerChar s"

text \<open>\<^verbatim>\<open>s.startsWith(p)\<close> and \<^verbatim>\<open>s.includes(p)\<close>.\<close>

definition startsWith :: "string \<Rightarrow> string \<Rightarrow> bool" where
  "startsWith s p = prefix p s"

fun str_includes :: "string \<Rightarrow> string \<Rightarrow> bool" where
  "str_includes [] p = (p = [])"
| "str_includes (c # cs) p = (prefix p (c # cs) \<or> str_includes cs p)"

text \<open>
  \<^verbatim>\<open>s.split(c)\<close> for a separator of one character (never the empty list), and its
  first element \<^verbatim>\<open>s.split(c)[0]\<close>.
\<close>

fun split_on :: "char \<Rightarrow> string \<Rightarrow> string list" where
  "split_on c [] = [[]]"
| "split_on c (x # xs) =
     (if x = c then [] # split_on c xs
      else (case split_on c xs of [] \<Rightarrow> [[x]] | p # ps \<Rightarrow> (x # p) # ps))"

definition first_part :: "char \<Rightarrow> string \<Rightarrow> string" where
  "first_part c s = takeWhile (\<lambda>x. x \<noteq> c) s"

text \<open>
  \<^verbatim>\<open>encodeURIComponent\<close>: the unreserved characters stay, every other byte of the
  UTF-8 form becomes \<^verbatim>\<open>%XX\<close>.
\<close>

definition hex_digit :: "nat \<Rightarrow> char" where
  "hex_digit n = (''0123456789ABCDEF'' ! (n mod 16))"

definition uri_unreserved :: "char \<Rightarrow> bool" where
  "uri_unreserved c =
     (let n = (of_char c :: nat)
      in (65 \<le> n \<and> n \<le> 90) \<or> (97 \<le> n \<and> n \<le> 122) \<or> (48 \<le> n \<and> n \<le> 57)
         \<or> c \<in> set ''-_.!~*()'' \<or> n = 39)"

definition encodeURIComponent :: "string \<Rightarrow> string" where
  "encodeURIComponent s =
     concat (map (\<lambda>c. if uri_unreserved c then [c]
                         else [CHR ''%'', hex_digit ((of_char c :: nat) div 16),
                               hex_digit ((of_char c :: nat) mod 16)]) s)"

text \<open>
  A value that reaches a function from untyped JSON or from a caller that ignores the
  declared parameter type. Numbers and objects are left out: no statement needs them.
\<close>

datatype jsval = JUndefined | JNull | JBool bool | JStr string

text \<open>An exception or a rejected promise.\<close>

datatype js_error = TypeError | RequestFailed

text \<open>The five category labels; \<open>label_name\<close> is the string the source writes.\<close>

datatype label = Product | Category | Blog | Static | Others

fun label_name :: "label \<Rightarrow> string" where
  "label_name Product = ''product''"
| "label_name Category = ''category''"
| "label_name Blog = ''blog''"
| "label_name Static = ''static''"
| "label_name Others = ''others''"

section \<open>The platform and the network\<close>

text \<open>
  What \<^verbatim>\<open>new URL(s)\<close> yields of a string: the two properties the pipeline reads.
\<close>

record parsed_url =
  origin :: string
  pathname :: string

text \<open>
  An element of a fetched page as the extractor reads it: \<^verbatim>\<open>getAttribute\<close> and
  \<^verbatim>\<open>textContent\<close>. A document answers \<^verbatim>\<open>querySelectorAll\<close> for every selector
  string; \<^verbatim>\<open>querySelector\<close> is its first element.
\<close>

record element =
  attrs :: "(string \<times> string) list"
  textContent :: string

record document =
  doc_title :: string
  querySelectorAll :: "string \<Rightarrow> element list"
  innerHTML :: string

definition getAttribute :: "element \<Rightarrow> string \<Rightarrow> string option" where
  "getAttribute el a = map_of (attrs el) a"

definition querySelector :: "document \<Rightarrow> string \<Rightarrow> element option" where
  "querySelector doc sel = (case querySelectorAll doc sel of [] \<Rightarrow> None | e # _ \<Rightarrow> Some e)"

text \<open>
  A parsed sitemap document: an index of child sitemaps, a set of page URLs, or neither.
  An entry is \<open>None\<close> when it has no \<^verbatim>\<open>loc\<close> child (reading \<^verbatim>\<open>loc[0]\<close> then throws).
\<close>

datatype xml_doc = SitemapIndex "string option list" | UrlSet "string option list" | OtherDoc

text \<open>
  Everything outside the repository that the pipeline calls: the URL parser, the clock,
  and the remote site. Each request is taken to settle with a body or a failure (the wait
  and retry of the fetch client on status 429 is part of the request); a general theorem
  below holds for every such environment.
  \<^item> \<open>URL_new s\<close>: \<^verbatim>\<open>new URL(s)\<close>, \<open>None\<close> when it throws;
  \<^item> \<open>URL_href h b\<close>: \<^verbatim>\<open>new URL(h, b).href\<close>, \<open>None\<close> when it throws;
  \<^item> \<open>now_iso\<close>: \<^verbatim>\<open>new Date().toISOString()\<close>;
  \<^item> \<open>robots_sitemap r\<close>: the first \<^verbatim>\<open>Sitemap:\<close> line of the robots file at \<open>r\<close>,
    \<open>None\<close> when the request fails or no line matches;
  \<^item> \<open>head_200 u\<close>: a HEAD request to \<open>u\<close> resolves with status 200;
  \<^item> \<open>get_xml u\<close>: the GET of \<open>u\<close> parsed by the XML parser, \<open>None\<close> when either fails;
  \<^item> \<open>get_page u\<close>: the GET of \<open>u\<close> parsed into a document, \<open>None\<close> when either fails.
\<close>

record world =
  URL_new :: "string \<Rightarrow> parsed_url option"
  URL_href :: "string \<Rightarrow> string \<Rightarrow> string option"
  now_iso :: string
  robots_sitemap :: "string \<Rightarrow> string option"
  head_200 :: "string \<Rightarrow> bool"
  get_xml :: "string \<Rightarrow> xml_doc option"
  get_page :: "string \<Rightarrow> document option"

text \<open>
  For the closed examples: the parser's answer on the plain shape
  \<^verbatim>\<open>http(s)://host/path?query#fragment\<close> (lower-case scheme, a non-empty host, nothing
  the parser would rewrite), and on a string with no scheme, which the parser rejects.
  Every other string is outside this fragment; the examples use none.
\<close>

definition url_http :: "string \<Rightarrow> parsed_url option" where
  "url_http s =
     (let scheme = takeWhile (\<lambda>c. c \<noteq> CHR '':'') s;
          rest = drop (length scheme) s;
          r = drop 3 rest;
          host = takeWhile (\<lambda>c. c \<noteq> CHR ''/'' \<and> c \<noteq> CHR ''?'' \<and> c \<noteq> CHR ''#'') r;
          path = takeWhile (\<lambda>c. c \<noteq> CHR ''?'' \<and> c \<noteq> CHR ''#'') (drop (length host) r)
      in if (scheme = ''http'' \<or> scheme = ''https'') \<and> prefix ''://'' rest \<and> host \<noteq> []
         then Some \<lparr>origin = scheme @ ''://'' @ host,
                    pathname = (if path = [] then ''/'' else path)\<rparr>
         else None)"

section \<open>URL classifier\<close>

text \<open>
  \<^verbatim>\<open>categorizeUrl\<close> (sitemap.ts, lines 387-473). The guard returns \<^verbatim>\<open>'static'\<close> for a
  falsy or non-string argument; \<^verbatim>\<open>new URL(url)\<close> then throws on a string the parser
  rejects; the rules on the path follow in the order of the source.
\<close>

definition categoryPatterns :: "string list" where
  "categoryPatterns =
     [''/kategori/'', ''/category/'', ''/blog/kategori/'', ''/blog/category/'', ''/cat/'',
      ''/collections/'']"

definition productCategoryPatterns :: "string list" where
  "productCategoryPatterns = [''/kategori/'', ''/category/'', ''/cat/'', ''/collections/'']"

definition productPatterns :: "string list" where
  "productPatterns =
     [''/urun/'', ''/product/'', ''/p/'', ''/shop/'', ''/item/'', ''/product-detail/'']"

definition blogPatterns :: "string list" where
  "blogPatterns = [''/blog/icerik/'', ''/icerik/'', ''/blog/'']"

definition staticPatterns :: "string list" where
  "staticPatterns =
     [''/sayfa/'', ''/page/'', ''/about'', ''/contact'',
      ''/faq'', ''/terms'', ''/privacy'', ''/hakkimizda'',
      ''/iletisim'', ''/yardim'', ''/help'', ''/support'',
      ''/gizlilik'', ''/sss'', ''/sikca-sorulan-sorular'',
      ''/shipping'', ''/returns'', ''/iade'', ''/kargom-nerede'',
      ''/indirimli-urunler'']"

definition classifyPath :: "string \<Rightarrow> label" where
  "classifyPath p =
     (if p = ''/'' then Static
      else if startsWith p ''/urun/'' then Product
      else if startsWith p ''/blog/icerik/'' then Blog
      else if list_ex (\<lambda>pat. startsWith p pat) categoryPatterns then Category
      else if list_ex (\<lambda>pat. startsWith p pat \<and> \<not> str_includes p ''/blog/'')
                productCategoryPatterns then Category
      else if list_ex (\<lambda>pat. startsWith p pat) productPatterns then Product
      else if list_ex (\<lambda>pat. startsWith p pat) blogPatterns
              \<and> \<not> str_includes p ''/blog/kategori/''
              \<and> \<not> str_includes p ''/blog/category/'' then Blog
      else if list_ex (\<lambda>pat. startsWith (first_part CHR ''?'' p) pat) staticPatterns
        then Static
      else Others)"

definition categorizeUrl :: "world \<Rightarrow> jsval \<Rightarrow> js_error + label" where
  "categorizeUrl w v =
     (case v of
        JStr s \<Rightarrow>
          (if s = [] then Inr Static
           else (case URL_new w s of
                   None \<Rightarrow> Inl TypeError
                 | Some urlObj \<Rightarrow> Inr (classifyPath (pathname urlObj))))
      | _ \<Rightarrow> Inr Static)"

section \<open>Batch scheduler\<close>

text \<open>
  \<^verbatim>\<open>processInBatches\<close> (sitemap.ts, lines 1151-1171). The handler is asynchronous: for
  an item its promise is fulfilled with a value or rejected with an error. A slot of the
  result is the value, or the object \<^verbatim>\<open>{error}\<close> that the \<^verbatim>\<open>catch\<close> makes of a
  rejection. The pause between two windows changes no value and is not modelled.
\<close>

datatype 'b settled = Fulfilled 'b | Rejected js_error

datatype 'b slot = Value 'b | ErrorObject js_error

definition maxConcurrent :: nat where
  "maxConcurrent = 10"

text \<open>\<^verbatim>\<open>xs.slice(i, j)\<close> for \<open>0 \<le> i \<le> j\<close>.\<close>

definition slice :: "nat \<Rightarrow> nat \<Rightarrow> 'a list \<Rightarrow> 'a list" where
  "slice i j xs = take (j - i) (drop i xs)"

definition catch_error :: "'b settled \<Rightarrow> 'b slot" where
  "catch_error p = (case p of Fulfilled v \<Rightarrow> Value v | Rejected e \<Rightarrow> ErrorObject e)"

function batch_loop ::
  "'a list \<Rightarrow> ('a \<Rightarrow> 'b settled) \<Rightarrow> nat \<Rightarrow> 'b slot list \<Rightarrow> 'b slot list" where
  "batch_loop items handler i results =
     (if i < length items
      then batch_loop items handler (i + maxConcurrent)
             (results @ map catch_error (map handler (slice i (i + maxConcurrent) items)))
      else results)"
  by pat_completeness auto
termination
  by (relation "measure (\<lambda>(items, handler, i, results). length items - i)")
     (auto simp: maxConcurrent_def)

declare batch_loop.simps [simp del]

definition processInBatches :: "'a list \<Rightarrow> ('a \<Rightarrow> 'b settled) \<Rightarrow> 'b slot list" where
  "processInBatches items handler = batch_loop items handler 0 []"

text \<open>A handler that rejects for one item of a list of twelve (two windows).\<close>

definition flaky_handler :: "nat \<Rightarrow> nat settled" where
  "flaky_handler n = (if n = 10 then Rejected RequestFailed else Fulfilled (2 * n))"

section \<open>Sitemap discovery\<close>

text \<open>\<^verbatim>\<open>s.replace(/\/$/, '')\<close>: one trailing slash is removed.\<close>

definition strip_trailing_slash :: "string \<Rightarrow> string" where
  "strip_trailing_slash s = (if s \<noteq> [] \<and> last s = CHR ''/'' then butlast s else s)"

text \<open>
  \<^verbatim>\<open>tryAlternativeSitemapUrls\<close> (lines 176-215): the candidate locations, the one the
  robots file names put first, and the first candidate whose HEAD request answers 200. A
  failure to parse the base URL or to read the robots file is caught and leaves the
  candidates as they are.
\<close>

definition tryAlternativeSitemapUrls :: "world \<Rightarrow> string \<Rightarrow> string option" where
  "tryAlternativeSitemapUrls w baseUrl =
     (let normalizedUrl = strip_trailing_slash baseUrl;
          variations =
            [baseUrl,
             normalizedUrl @ ''/sitemap.xml'',
             normalizedUrl @ ''/sitemap_index.xml'',
             normalizedUrl @ ''/sitemap/sitemap.xml'',
             normalizedUrl @ ''/wp-sitemap.xml'',
             normalizedUrl @ ''/page-sitemap.xml''];
          variations' =
            (case URL_new w baseUrl of
               None \<Rightarrow> variations
             | Some b \<Rightarrow>
                 (case robots_sitemap w (origin b @ ''/robots.txt'') of
                    None \<Rightarrow> variations
                  | Some m \<Rightarrow> m # variations))
      in find (head_200 w) variations')"

text \<open>
  The location \<^verbatim>\<open>fetchSitemapUrls\<close> requests: the argument when it contains
  \<^verbatim>\<open>sitemap\<close>, else the candidate found (when one is found and is not the empty string).
\<close>

definition sitemap_location :: "world \<Rightarrow> string \<Rightarrow> string" where
  "sitemap_location w sitemapUrl =
     (if \<not> str_includes (toLowerCase sitemapUrl) ''sitemap''
      then (case tryAlternativeSitemapUrls w sitemapUrl of
              None \<Rightarrow> sitemapUrl
            | Some foundUrl \<Rightarrow> if foundUrl \<noteq> [] then foundUrl else sitemapUrl)
      else sitemapUrl)"

text \<open>\<^verbatim>\<open>entries.map(e => e.loc[0])\<close>: a TypeError at an entry without \<^verbatim>\<open>loc\<close>.\<close>

fun locs :: "string option list \<Rightarrow> js_error + string list" where
  "locs [] = Inr []"
| "locs (None # es) = Inl TypeError"
| "locs (Some l # es) = (case locs es of Inl e \<Rightarrow> Inl e | Inr ls \<Rightarrow> Inr (l # ls))"

text \<open>
  \<^verbatim>\<open>Promise.all\<close>: the values in the order of the promises, or a rejection when one
  of them rejects (which one is reported does not matter to any caller here).
\<close>

fun Promise_all :: "(js_error + 'a) list \<Rightarrow> js_error + 'a list" where
  "Promise_all [] = Inr []"
| "Promise_all (p # ps) =
     (case p of
        Inl e \<Rightarrow> Inl e
      | Inr v \<Rightarrow> (case Promise_all ps of Inl e \<Rightarrow> Inl e | Inr vs \<Rightarrow> Inr (v # vs)))"

text \<open>
  The windows \<^verbatim>\<open>xs.slice(i, i + batchSize)\<close> that the loop
  \<^verbatim>\<open>for (i = 0; i < xs.length; i += batchSize)\<close> takes, from index \<open>i\<close> on, and the loop's
  accumulation \<^verbatim>\<open>urls = [...urls, ...batchResults.flat()]\<close>, which stops at the first
  rejected window.
\<close>

function windows :: "'a list \<Rightarrow> nat \<Rightarrow> 'a list list" where
  "windows xs i =
     (if i < length xs then slice i (i + maxConcurrent) xs # windows xs (i + maxConcurrent)
      else [])"
  by pat_completeness auto
termination
  by (relation "measure (\<lambda>(xs, i). length xs - i)") (auto simp: maxConcurrent_def)

declare windows.simps [simp del]

fun collect_windows :: "'a list \<Rightarrow> (js_error + 'a list list) list \<Rightarrow> js_error + 'a list" where
  "collect_windows urls [] = Inr urls"
| "collect_windows urls (r # rs) =
     (case r of
        Inl e \<Rightarrow> Inl e
      | Inr batchResults \<Rightarrow> collect_windows (urls @ concat batchResults) rs)"

text \<open>The filter of the result: \<^verbatim>\<open>new URL(url)\<close> does not throw.\<close>

definition valid_url :: "world \<Rightarrow> string \<Rightarrow> bool" where
  "valid_url w u = (URL_new w u \<noteq> None)"

text \<open>
  \<^verbatim>\<open>fetchSitemapUrls\<close> (lines 217-264). The inner \<open>case\<close> is the body of the
  \<^verbatim>\<open>try\<close>, with \<open>Inl\<close> for whatever it throws; the outer \<open>case\<close> is the \<^verbatim>\<open>catch\<close>,
  which returns the empty list. The recursion is on \<open>depth\<close>: the termination proof is
  the measure \<open>6 - depth\<close>, which every recursive call decreases.
\<close>

function fetchSitemapUrls :: "world \<Rightarrow> string \<Rightarrow> nat \<Rightarrow> js_error + string list" where
  "fetchSitemapUrls w sitemapUrl depth =
     (if depth > 5 then Inr []
      else
        (case
           (case get_xml w (sitemap_location w sitemapUrl) of
              None \<Rightarrow> Inl RequestFailed
            | Some result \<Rightarrow>
                (case result of
                   SitemapIndex entries \<Rightarrow>
                     (case locs entries of
                        Inl e \<Rightarrow> Inl e
                      | Inr sitemapUrls \<Rightarrow>
                          (case collect_windows []
                                  (map (\<lambda>batch.
                                          Promise_all
                                            (map (\<lambda>u. fetchSitemapUrls w u (depth + 1)) batch))
                                       (windows sitemapUrls 0)) of
                             Inl e \<Rightarrow> Inl e
                           | Inr urls \<Rightarrow> Inr (filter (valid_url w) urls)))
                 | UrlSet entries \<Rightarrow>
                     (case locs entries of
                        Inl e \<Rightarrow> Inl e
                      | Inr urls \<Rightarrow> Inr (filter (valid_url w) urls))
                 | OtherDoc \<Rightarrow> Inr []))
         of Inl error \<Rightarrow> Inr []
          | Inr urls \<Rightarrow> Inr urls))"
  by pat_completeness auto
termination
  by (relation "measure (\<lambda>(w, sitemapUrl, depth). 6 - depth)") auto

declare fetchSitemapUrls.simps [simp del]

text \<open>The list a settled call contributes.\<close>

definition urls_of :: "js_error + string list \<Rightarrow> string list" where
  "urls_of r = (case r of Inl e \<Rightarrow> [] | Inr urls \<Rightarrow> urls)"

section \<open>Example environments\<close>

text \<open>A site that answers no request; URLs parse as \<open>url_http\<close> says.\<close>

definition offline_world :: world where
  "offline_world =
     \<lparr>URL_new = url_http, URL_href = (\<lambda>h b. None), now_iso = ''2024-01-01T00:00:00.000Z'',
      robots_sitemap = (\<lambda>r. None), head_200 = (\<lambda>u. False), get_xml = (\<lambda>u. None),
      get_page = (\<lambda>u. None)\<rparr>"



text \<open>A sitemap index with one child that cannot be fetched and one that can.\<close>

definition partial_xml :: "string \<Rightarrow> xml_doc option" where
  "partial_xml u =
     (if u = ''https://x/sitemap.xml''
        then Some (SitemapIndex [Some ''https://x/sitemap-missing.xml'', Some ''https://x/sitemap-c.xml''])
      else if u = ''https://x/sitemap-c.xml''
        then Some (UrlSet [Some ''https://x/urun/1'', Some ''no scheme''])
      else None)"

definition partial_world :: world where
  "partial_world = offline_world\<lparr>get_xml := partial_xml\<rparr>"

section \<open>Page records\<close>

text \<open>
  \<^verbatim>\<open>PageData\<close> (lines 41-59). An optional property is an \<open>option\<close>. The \<^verbatim>\<open>type\<close>
  property is declared a string; every assignment in the pipeline gives it one of the
  five labels, so it is a \<^typ>\<open>label option\<close> here. The properties \<^verbatim>\<open>comments\<close> and
  \<^verbatim>\<open>structuredData\<close> are never written and are left out.
\<close>

record PageData =
  url :: string
  title :: "string option"
  description :: "string option"
  price :: "string option"
  stockStatus :: "string option"
  images :: "string list option"
  category :: "string option"
  date :: "string option"
  features :: "string list option"
  breadcrumb :: "string list option"
  blogContent :: "string option"
  blogCategories :: "string list option"
  timestamp :: "string option"
  error :: "string option"
  type :: "label option"

text \<open>An object literal that sets only \<^verbatim>\<open>url\<close>; the other properties are added by update.\<close>

definition PageData_of_url :: "string \<Rightarrow> PageData" where
  "PageData_of_url u =
     \<lparr>url = u, title = None, description = None, price = None, stockStatus = None,
      images = None, category = None, date = None, features = None, breadcrumb = None,
      blogContent = None, blogCategories = None, timestamp = None, error = None,
      type = None\<rparr>"

text \<open>
  A \<^verbatim>\<open>Record<string, PageData>\<close> is an association list in insertion order: an
  assignment \<^verbatim>\<open>result[url] = data\<close> replaces the value of a key that is present, in
  its place, and appends a new key (\<open>AList.update\<close>); \<^verbatim>\<open>Object.values\<close> and
  \<^verbatim>\<open>Object.keys\<close> are the lists of the values and of the keys. (Keys that are
  canonical array indices, which the host orders first, do not occur: the keys are URLs.)
\<close>

type_synonym page_map = "(string \<times> PageData) list"

definition Object_values :: "page_map \<Rightarrow> PageData list" where
  "Object_values m = map snd m"

definition Object_keys :: "page_map \<Rightarrow> string list" where
  "Object_keys m = map fst m"

section \<open>Coverage guarantor: synthetic records\<close>

text \<open>\<^verbatim>\<open>s.replace(/\/+$/, '')\<close>: all trailing slashes are removed.\<close>

definition strip_trailing_slashes :: "string \<Rightarrow> string" where
  "strip_trailing_slashes s = rev (dropWhile (\<lambda>c. c = CHR ''/'') (rev s))"

text \<open>\<^verbatim>\<open>new Date().toISOString().split('T')[0]\<close>.\<close>

definition today :: "world \<Rightarrow> string" where
  "today w = first_part CHR ''T'' (now_iso w)"

text \<open>The Turkish letters of the injected copy, as UTF-8 bytes.\<close>

abbreviation dotless_i :: string where
  "dotless_i \<equiv> [CHR 0xC4, CHR 0xB1]"

abbreviation s_cedilla :: string where
  "s_cedilla \<equiv> [CHR 0xC5, CHR 0x9F]"

abbreviation S_cedilla :: string where
  "S_cedilla \<equiv> [CHR 0xC5, CHR 0x9E]"

abbreviation I_dotted :: string where
  "I_dotted \<equiv> [CHR 0xC4, CHR 0xB0]"

abbreviation c_cedilla :: string where
  "c_cedilla \<equiv> [CHR 0xC3, CHR 0xA7]"

abbreviation C_cedilla :: string where
  "C_cedilla \<equiv> [CHR 0xC3, CHR 0x87]"

abbreviation o_umlaut :: string where
  "o_umlaut \<equiv> [CHR 0xC3, CHR 0xB6]"

abbreviation u_umlaut :: string where
  "u_umlaut \<equiv> [CHR 0xC3, CHR 0xBC]"

abbreviation U_umlaut :: string where
  "U_umlaut \<equiv> [CHR 0xC3, CHR 0x9C]"

definition staticPages_tr :: "(string \<times> string \<times> string) list" where
  "staticPages_tr =
     [(''hakkimizda'', ''Hakk'' @ dotless_i @ ''m'' @ dotless_i @ ''zda'',
       S_cedilla @ ''irketimiz hakk'' @ dotless_i @ ''nda bilgi edinin.''),
      (''iletisim'', I_dotted @ ''leti'' @ s_cedilla @ ''im'',
       ''Bizimle ileti'' @ s_cedilla @ ''ime ge'' @ c_cedilla @ ''in.''),
      (''gizlilik-politikasi'', ''Gizlilik Politikas'' @ dotless_i,
       ''Gizlilik politikam'' @ dotless_i @ ''z hakk'' @ dotless_i @ ''nda bilgi.''),
      (''satis-sozlesmesi'', ''Sat'' @ dotless_i @ s_cedilla @ '' S'' @ o_umlaut @ ''zle'' @ s_cedilla @ ''mesi'',
       ''Sat'' @ dotless_i @ s_cedilla @ '' ko'' @ s_cedilla @ ''ullar'' @ dotless_i @ ''m'' @ dotless_i @ ''z ve '' @ s_cedilla @ ''artlar'' @ dotless_i @ ''m'' @ dotless_i @ ''z.''),
      (''sikca-sorulan-sorular'', ''S'' @ dotless_i @ ''k'' @ c_cedilla @ ''a Sorulan Sorular'',
       ''En '' @ c_cedilla @ ''ok sorulan sorular ve cevaplar'' @ dotless_i @ ''.'')]"

definition staticPages_en :: "(string \<times> string \<times> string) list" where
  "staticPages_en =
     [(''about-us'', ''About Us'',
       ''Learn about our company and mission.''),
      (''contact'', ''Contact Us'',
       ''Get in touch with our team.''),
      (''privacy-policy'', ''Privacy Policy'',
       ''How we handle and protect your data.''),
      (''terms-of-service'', ''Terms of Service'',
       ''Our terms and conditions.''),
      (''faq'', ''Frequently Asked Questions'',
       ''Answers to common questions.'')]"

definition blogPosts_tr :: "(string \<times> string \<times> string) list" where
  "blogPosts_tr =
     [(''yeni-urunlerimiz-hakkinda'', ''Yeni '' @ U_umlaut @ ''r'' @ u_umlaut @ ''nlerimiz Hakk'' @ dotless_i @ ''nda'',
       ''Yeni '' @ u_umlaut @ ''r'' @ u_umlaut @ ''nlerimizi inceleyin.''),
      (''musteri-deneyimleri'', ''M'' @ u_umlaut @ s_cedilla @ ''teri Deneyimleri'',
       ''M'' @ u_umlaut @ s_cedilla @ ''terilerimizin deneyimlerini okuyun.''),
      (''sektor-haberleri'', ''Sekt'' @ o_umlaut @ ''r Haberleri'',
       ''Sekt'' @ o_umlaut @ ''rdeki son geli'' @ s_cedilla @ ''meler.'')]"

definition blogPosts_en :: "(string \<times> string \<times> string) list" where
  "blogPosts_en =
     [(''new-product-announcement'', ''New Product Announcement'',
       ''Check out our newest products.''),
      (''customer-testimonials'', ''Customer Testimonials'',
       ''Read about our customers'' @ [CHR 0x27] @ '' experiences.''),
      (''industry-news'', ''Industry News'',
       ''Latest developments in our industry.'')]"

definition categories_tr :: "(string \<times> string \<times> string) list" where
  "categories_tr =
     [(''yeni-gelenler'', ''Yeni Gelenler'',
       ''En yeni '' @ u_umlaut @ ''r'' @ u_umlaut @ ''nlerimiz.''),
      (''en-cok-satanlar'', ''En '' @ C_cedilla @ ''ok Satanlar'',
       ''En pop'' @ u_umlaut @ ''ler '' @ u_umlaut @ ''r'' @ u_umlaut @ ''nlerimiz.''),
      (''indirimli-urunler'', I_dotted @ ''ndirimli '' @ U_umlaut @ ''r'' @ u_umlaut @ ''nler'',
       I_dotted @ ''ndirimli '' @ u_umlaut @ ''r'' @ u_umlaut @ ''nlerimiz.'')]"

definition categories_en :: "(string \<times> string \<times> string) list" where
  "categories_en =
     [(''new-arrivals'', ''New Arrivals'',
       ''Our newest products.''),
      (''best-sellers'', ''Best Sellers'',
       ''Our most popular products.''),
      (''sale-items'', ''Sale Items'',
       ''Products with special discounts.'')]"

text \<open>
  \<^verbatim>\<open>ensureMinimumPageTypes\<close> (lines 1806-1940). The tables above hold the slug, the
  title and the description of each injected page. Each loop assigns
  \<^verbatim>\<open>result[url] = {...}\<close> without looking whether the key is present.
\<close>

definition isTurkishSite :: "page_map \<Rightarrow> bool" where
  "isTurkishSite result =
     list_ex (\<lambda>u. str_includes u ''/sayfa/'' \<or> str_includes u ''/kategori/''
                  \<or> str_includes u ''/icerik/'' \<or> str_includes u ''/hakkimizda''
                  \<or> str_includes u ''/iletisim'')
       (Object_keys result)"

definition static_record :: "world \<Rightarrow> string \<Rightarrow> string \<Rightarrow> string \<Rightarrow> PageData" where
  "static_record w u t d =
     (PageData_of_url u)\<lparr>title := Some t, description := Some d, type := Some Static,
                          timestamp := Some (now_iso w)\<rparr>"

definition blog_record :: "world \<Rightarrow> bool \<Rightarrow> string \<Rightarrow> string \<Rightarrow> string \<Rightarrow> PageData" where
  "blog_record w tr u t d =
     (PageData_of_url u)\<lparr>title := Some t, description := Some d, type := Some Blog,
        date := Some (today w),
        blogCategories := Some (if tr then [''Genel'', ''Haberler''] else [''General'', ''News'']),
        blogContent := Some (if tr then ''Bu bir '' @ o_umlaut @ ''rnek blog yaz'' @ dotless_i
                                         @ ''s'' @ dotless_i @ ''d'' @ dotless_i @ ''r.''
                             else ''This is a sample blog post.''),
        timestamp := Some (now_iso w),
        images := Some [''https://via.placeholder.com/800x400?text='' @ encodeURIComponent t]\<rparr>"

definition category_record :: "world \<Rightarrow> string \<Rightarrow> string \<Rightarrow> string \<Rightarrow> PageData" where
  "category_record w u n d =
     (PageData_of_url u)\<lparr>title := Some n, description := Some d, type := Some Category,
        category := Some n, timestamp := Some (now_iso w),
        images := Some [''https://via.placeholder.com/800x400?text='' @ encodeURIComponent n]\<rparr>"

definition add_static_pages ::
  "world \<Rightarrow> string \<Rightarrow> (string \<times> string \<times> string) list \<Rightarrow> page_map \<Rightarrow> page_map" where
  "add_static_pages w pre pages result =
     foldl (\<lambda>res (slug, t, d). AList.update (pre @ slug) (static_record w (pre @ slug) t d) res)
       result pages"

definition add_blog_posts ::
  "world \<Rightarrow> bool \<Rightarrow> string \<Rightarrow> (string \<times> string \<times> string) list \<Rightarrow> page_map \<Rightarrow> page_map"
  where
  "add_blog_posts w tr pre posts result =
     foldl (\<lambda>res (slug, t, d). AList.update (pre @ slug) (blog_record w tr (pre @ slug) t d) res)
       result posts"

definition add_categories ::
  "world \<Rightarrow> string \<Rightarrow> (string \<times> string \<times> string) list \<Rightarrow> page_map \<Rightarrow> page_map" where
  "add_categories w pre cats result =
     foldl (\<lambda>res (slug, n, d). AList.update (pre @ slug) (category_record w (pre @ slug) n d) res)
       result cats"

definition count_type :: "label \<Rightarrow> page_map \<Rightarrow> nat" where
  "count_type t m = length (filter (\<lambda>item. type item = Some t) (Object_values m))"

definition ensureMinimumPageTypes :: "world \<Rightarrow> string \<Rightarrow> page_map \<Rightarrow> page_map" where
  "ensureMinimumPageTypes w baseUrl processedData =
     (let result = processedData;
          normalizedBaseUrl = strip_trailing_slashes baseUrl;
          tr = isTurkishSite result;
          staticUrlPrefix = (if tr then ''/sayfa/'' else ''/'');
          blogUrlPrefix = (if tr then ''/blog/icerik/'' else ''/blog/'');
          categoryUrlPrefix = (if tr then ''/kategori/'' else ''/category/'');
          result = add_static_pages w (normalizedBaseUrl @ staticUrlPrefix)
                     (if tr then staticPages_tr else staticPages_en) result;
          result = add_blog_posts w tr (normalizedBaseUrl @ blogUrlPrefix)
                     (if tr then blogPosts_tr else blogPosts_en) result;
          blogIndexUrl = normalizedBaseUrl @ ''/blog'';
          result = AList.update blogIndexUrl
                     (static_record w blogIndexUrl ''Blog''
                        (if tr then ''Blog yaz'' @ dotless_i @ ''lar'' @ dotless_i @ ''m''
                                    @ dotless_i @ ''z''
                         else ''Our blog posts''))
                     result
      in if count_type Category result < 3
         then add_categories w (normalizedBaseUrl @ categoryUrlPrefix)
                (if tr then categories_tr else categories_en) result
         else result)"


section \<open>Statistics\<close>

text \<open>
  \<^verbatim>\<open>getPageStats\<close> (lines 1710-1730). The counters are the object
  \<^verbatim>\<open>{all, product, blog, category, static}\<close>; a type with no counter of its own
  (\<^verbatim>\<open>'others'\<close>, or none) is counted as static.
\<close>

definition increment :: "string \<Rightarrow> (string \<times> nat) list \<Rightarrow> (string \<times> nat) list" where
  "increment k stats = AList.map_entry k Suc stats"

definition getPageStats_step :: "(string \<times> nat) list \<Rightarrow> PageData \<Rightarrow> (string \<times> nat) list" where
  "getPageStats_step stats data =
     (let stats = increment ''all'' stats;
          ty = (case type data of None \<Rightarrow> ''static'' | Some t \<Rightarrow> label_name t)
      in if map_of stats ty \<noteq> None then increment ty stats else increment ''static'' stats)"

definition getPageStats :: "page_map \<Rightarrow> (string \<times> nat) list" where
  "getPageStats pageData =
     foldl getPageStats_step
       [(''all'', 0), (''product'', 0), (''blog'', 0), (''category'', 0), (''static'', 0)]
       (Object_values pageData)"

text \<open>
  \<^verbatim>\<open>convertPageDataToArray\<close> (lines 1696-1703) and the statistics of the POST handler of
  \<^verbatim>\<open>src/app/api/urls/route.ts\<close> (lines 113-123).
\<close>

definition convertPageDataToArray :: "page_map \<Rightarrow> PageData list" where
  "convertPageDataToArray pageData =
     map (\<lambda>data. data\<lparr>type := Some (case type data of None \<Rightarrow> Others | Some t \<Rightarrow> t)\<rparr>)
       (Object_values pageData)"

definition POST_stats :: "PageData list \<Rightarrow> (string \<times> nat) list" where
  "POST_stats pageDataArray =
     [(''total'', length pageDataArray),
      (''crawled'', length pageDataArray),
      (''failed'', 0),
      (''product'', length (filter (\<lambda>page. type page = Some Product) pageDataArray)),
      (''blog'', length (filter (\<lambda>page. type page = Some Blog) pageDataArray)),
      (''category'', length (filter (\<lambda>page. type page = Some Category) pageDataArray)),
      (''static'', length (filter (\<lambda>page. type page = Some Static) pageDataArray)),
      (''others'', length (filter (\<lambda>page. type page = Some Others) pageDataArray))]"

section \<open>The cap on the number of URLs\<close>

text \<open>
  \<^verbatim>\<open>parseInt(s)\<close> with no radix: leading white space is skipped, then an optional
  sign, then \<^verbatim>\<open>0x\<close> or \<^verbatim>\<open>0X\<close> selects radix 16, and the longest run of digits is
  read; \<open>None\<close> is \<^verbatim>\<open>NaN\<close>, the result when no digit is read. The white space is the
  ASCII white space. The value is exact here, where the host rounds to a double: a
  difference only above \<open>2^53\<close>, beyond the length of any array.
\<close>

definition is_space :: "char \<Rightarrow> bool" where
  "is_space c = (let n = (of_char c :: nat) in n = 32 \<or> (9 \<le> n \<and> n \<le> 13))"

definition digit_value :: "nat \<Rightarrow> char \<Rightarrow> nat option" where
  "digit_value radix c =
     (let n = (of_char c :: nat);
          v = (if 48 \<le> n \<and> n \<le> 57 then n - 48
               else if 97 \<le> n \<and> n \<le> 122 then n - 87
               else if 65 \<le> n \<and> n \<le> 90 then n - 55
               else radix)
      in if v < radix then Some v else None)"

definition digits_value :: "nat \<Rightarrow> string \<Rightarrow> nat" where
  "digits_value radix ds =
     foldl (\<lambda>a c. a * radix + (case digit_value radix c of None \<Rightarrow> 0 | Some v \<Rightarrow> v)) 0 ds"

definition parseInt :: "string \<Rightarrow> int option" where
  "parseInt s =
     (let s1 = dropWhile is_space s;
          sign = (if prefix ''-'' s1 then - 1 else (1 :: int));
          s2 = (if prefix ''-'' s1 \<or> prefix ''+'' s1 then drop 1 s1 else s1);
          radix = (if prefix ''0x'' s2 \<or> prefix ''0X'' s2 then 16 else (10 :: nat));
          s3 = (if prefix ''0x'' s2 \<or> prefix ''0X'' s2 then drop 2 s2 else s2);
          z = takeWhile (\<lambda>c. digit_value radix c \<noteq> None) s3
      in if z = [] then None else Some (sign * int (digits_value radix z)))"





text \<open>The number of records with no \<^verbatim>\<open>type\<close> property.\<close>

definition count_untyped :: "page_map \<Rightarrow> nat" where
  "count_untyped m = length (filter (\<lambda>item. type item = None) (Object_values m))"


section \<open>Page content extractor\<close>

text \<open>
  Host-language idioms. A string is falsy when it is missing or empty; \<^verbatim>\<open>a || b\<close> is
  \<open>a\<close> when \<open>a\<close> is truthy and \<open>b\<close> otherwise; \<^verbatim>\<open>trim\<close> removes the white space at both
  ends (the ASCII white space here).
\<close>

definition truthy :: "string option \<Rightarrow> bool" where
  "truthy s = (case s of None \<Rightarrow> False | Some t \<Rightarrow> t \<noteq> [])"

definition js_or :: "string option \<Rightarrow> string option \<Rightarrow> string option" where
  "js_or a b = (if truthy a then a else b)"

definition trim :: "string \<Rightarrow> string" where
  "trim s = rev (dropWhile is_space (rev (dropWhile is_space s)))"

text \<open>\<^verbatim>\<open>xs.filter(Boolean)\<close> on a list of strings that may be missing.\<close>

definition filter_Boolean :: "string option list \<Rightarrow> string list" where
  "filter_Boolean xs = concat (map (\<lambda>x. case x of None \<Rightarrow> [] | Some s \<Rightarrow> if s = [] then [] else [s]) xs)"

text \<open>\<^verbatim>\<open>s.replace(/-/g, ' ')\<close> and \<^verbatim>\<open>s.replace(/\b\w/g, c => c.toUpperCase())\<close>.\<close>

definition dashes_to_spaces :: "string \<Rightarrow> string" where
  "dashes_to_spaces s = map (\<lambda>c. if c = CHR ''-'' then CHR '' '' else c) s"

definition is_word_char :: "char \<Rightarrow> bool" where
  "is_word_char c =
     (let n = (of_char c :: nat)
      in (48 \<le> n \<and> n \<le> 57) \<or> (65 \<le> n \<and> n \<le> 90) \<or> (97 \<le> n \<and> n \<le> 122) \<or> n = 95)"

fun capitalize_words :: "bool \<Rightarrow> string \<Rightarrow> string" where
  "capitalize_words at_boundary [] = []"
| "capitalize_words at_boundary (c # cs) =
     (if is_word_char c
      then (if at_boundary then toUpperChar c else c) # capitalize_words False cs
      else c # capitalize_words True cs)"

definition humanize :: "string \<Rightarrow> string" where
  "humanize slug = capitalize_words True (dashes_to_spaces slug)"

text \<open>
  The first match of \<^verbatim>\<open>/(\d{a})[-./](\d{b})[-./](\d{c})/\<close> in a string: the matched
  text, leftmost first.
\<close>

definition is_decimal :: "char \<Rightarrow> bool" where
  "is_decimal c = (let n = (of_char c :: nat) in 48 \<le> n \<and> n \<le> 57)"

definition is_date_separator :: "char \<Rightarrow> bool" where
  "is_date_separator c = (c = CHR ''-'' \<or> c = CHR ''.'' \<or> c = CHR ''/'')"

definition date_at :: "nat \<Rightarrow> nat \<Rightarrow> nat \<Rightarrow> string \<Rightarrow> bool" where
  "date_at a b c s =
     (a + b + c + 2 \<le> length s
      \<and> list_all is_decimal (take a s)
      \<and> is_date_separator (s ! a)
      \<and> list_all is_decimal (take b (drop (a + 1) s))
      \<and> is_date_separator (s ! (a + b + 1))
      \<and> list_all is_decimal (take c (drop (a + b + 2) s)))"

fun match_date :: "nat \<Rightarrow> nat \<Rightarrow> nat \<Rightarrow> string \<Rightarrow> string option" where
  "match_date a b c [] = None"
| "match_date a b c (x # xs) =
     (if date_at a b c (x # xs) then Some (take (a + b + c + 2) (x # xs))
      else match_date a b c xs)"

text \<open>
  The capture of \<^verbatim>\<open>/\/(alt1|alt2|...)\/([^\/]+)/\<close> in a string: the segment after the
  first occurrence of \<^verbatim>\<open>/alt/\<close> that a character other than \<^verbatim>\<open>/\<close> follows; with
  \<open>ci\<close> the alternatives match without regard to ASCII case.
\<close>

definition segment_here :: "bool \<Rightarrow> string list \<Rightarrow> string \<Rightarrow> string option" where
  "segment_here ci alts s =
     (case filter (\<lambda>alt. prefix (''/'' @ alt @ ''/'') (if ci then toLowerCase s else s)
                          \<and> length alt + 2 < length s
                          \<and> s ! (length alt + 2) \<noteq> CHR ''/'') alts of
        [] \<Rightarrow> None
      | alt # _ \<Rightarrow> Some (takeWhile (\<lambda>c. c \<noteq> CHR ''/'') (drop (length alt + 2) s)))"

fun match_segment :: "bool \<Rightarrow> string list \<Rightarrow> string \<Rightarrow> string option" where
  "match_segment ci alts [] = None"
| "match_segment ci alts (x # xs) =
     (case segment_here ci alts (x # xs) of
        Some seg \<Rightarrow> Some seg
      | None \<Rightarrow> match_segment ci alts xs)"

text \<open>\<^verbatim>\<open>url.split('/').pop()\<close> and \<^verbatim>\<open>url.split('/').filter(Boolean)\<close>.\<close>

definition last_segment :: "string \<Rightarrow> string" where
  "last_segment u = last (split_on CHR ''/'' u)"

definition path_parts :: "string \<Rightarrow> string list" where
  "path_parts u = filter (\<lambda>p. p \<noteq> []) (split_on CHR ''/'' u)"

text \<open>Reading an element.\<close>

definition text_trimmed :: "element \<Rightarrow> string" where
  "text_trimmed el = trim (textContent el)"

definition content_or_text :: "element \<Rightarrow> string option" where
  "content_or_text el = js_or (getAttribute el ''content'') (Some (text_trimmed el))"

text \<open>
  \<^verbatim>\<open>for (const selector of selectors) { const element = querySelector(selector);
  if (element) { ...; break } }\<close>: the first element that a selector of the list finds.
\<close>

fun first_element :: "document \<Rightarrow> string list \<Rightarrow> element option" where
  "first_element doc [] = None"
| "first_element doc (sel # sels) =
     (case querySelector doc sel of
        Some el \<Rightarrow> Some el
      | None \<Rightarrow> first_element doc sels)"

text \<open>\<^verbatim>\<open>extractBreadcrumb\<close> (lines 1110-1128).\<close>

definition breadcrumbSelectors :: "string list" where
  "breadcrumbSelectors =
     [''.breadcrumb li'', ''.breadcrumbs li'', ''nav[aria-label=\"breadcrumb\"] li'',
      ''[itemtype*=\"BreadcrumbList\"] [itemprop=\"itemListElement\"]'']"

fun extractBreadcrumb_from :: "document \<Rightarrow> string list \<Rightarrow> string list" where
  "extractBreadcrumb_from doc [] = []"
| "extractBreadcrumb_from doc (sel # sels) =
     (case querySelectorAll doc sel of
        [] \<Rightarrow> extractBreadcrumb_from doc sels
      | els \<Rightarrow> filter_Boolean (map (\<lambda>el. Some (text_trimmed el)) els))"

definition extractBreadcrumb :: "document \<Rightarrow> string list" where
  "extractBreadcrumb doc = extractBreadcrumb_from doc breadcrumbSelectors"

text \<open>
  The text of \<^verbatim>\<open>String(error)\<close>: it depends on the failure; only its presence matters
  below.
\<close>

fun error_text :: "js_error \<Rightarrow> string" where
  "error_text TypeError = ''TypeError: Invalid URL''"
| "error_text RequestFailed = ''Error: Request failed''"

subsection \<open>Blog pages (lines 523-808)\<close>

definition blogDateSelectors :: "string list" where
  "blogDateSelectors =
     [''meta[property=\"article:published_time\"]'', ''time[datetime]'', ''.post-date'',
      ''.blog-date'', ''.date'', ''[itemprop=\"datePublished\"]'', ''.entry-date'',
      ''.entry-meta time'', ''.post-meta time'', ''.blog-detail-date'', ''.article-date'',
      ''.publish-date'', ''.blog-icerik-date'', ''.icerik-tarih'', ''.yayinlanma-tarihi'']"

definition blog_date :: "world \<Rightarrow> document \<Rightarrow> string option" where
  "blog_date w doc =
     (let found =
            (case first_element doc blogDateSelectors of
               None \<Rightarrow> None
             | Some el \<Rightarrow>
                 js_or (getAttribute el ''datetime'')
                   (js_or (getAttribute el ''content'') (Some (text_trimmed el))))
      in if truthy found then found
         else (case match_date 2 2 4 (innerHTML doc) of
                 Some m \<Rightarrow> Some m
               | None \<Rightarrow>
                   (case match_date 4 2 2 (innerHTML doc) of
                      Some m \<Rightarrow> Some m
                    | None \<Rightarrow> Some (today w))))"

definition blogDescriptionSelectors :: "string list" where
  "blogDescriptionSelectors =
     [''meta[property=\"og:description\"]'', ''meta[name=\"description\"]'', ''.blog-summary'',
      ''.blog-excerpt'', ''.post-summary'', ''.article-summary'', ''.entry-summary'',
      ''.post-content p:first-child'', ''.blog-content p:first-child'', ''.icerik-ozet'',
      ''.blog-icerik-ozet'', ''.yazi-ozeti'']"

text \<open>The first selector whose element has a description text of more than 10 characters.\<close>

fun blog_description_from :: "document \<Rightarrow> string list \<Rightarrow> string option" where
  "blog_description_from doc [] = None"
| "blog_description_from doc (sel # sels) =
     (case querySelector doc sel of
        None \<Rightarrow> blog_description_from doc sels
      | Some el \<Rightarrow>
          (case content_or_text el of
             None \<Rightarrow> blog_description_from doc sels
           | Some descriptionText \<Rightarrow>
               if descriptionText \<noteq> [] \<and> length descriptionText > 10
               then Some descriptionText
               else blog_description_from doc sels))"

definition blogParagraphSelectors :: "string list" where
  "blogParagraphSelectors =
     [''article p'', ''.blog-content p'', ''.post-content p'', ''.entry-content p'', ''.icerik p'']"

text \<open>
  The description made of the first two paragraphs: the first selector with paragraphs
  whose joined text is longer than 10 characters, cut at 160.
\<close>

fun generated_description :: "document \<Rightarrow> string list \<Rightarrow> string option" where
  "generated_description doc [] = None"
| "generated_description doc (sel # sels) =
     (let paragraphs = querySelectorAll doc sel;
          joined = concat (map (\<lambda>p. text_trimmed p @ '' '') (take 2 paragraphs))
      in if paragraphs \<noteq> [] \<and> length joined > 10
         then Some (take 160 joined @ ''...'')
         else generated_description doc sels)"

definition blog_description :: "document \<Rightarrow> string option \<Rightarrow> string option \<Rightarrow> string option"
  where
  "blog_description doc page_title current =
     (let d1 = (case blog_description_from doc blogDescriptionSelectors of
                  Some t \<Rightarrow> Some t
                | None \<Rightarrow> current)
      in if \<not> truthy d1
         then (let d2 = (case generated_description doc blogParagraphSelectors of
                           Some t \<Rightarrow> Some t
                         | None \<Rightarrow> d1)
               in case page_title of
                    Some t \<Rightarrow>
                      if \<not> truthy d2 \<and> t \<noteq> []
                      then Some (t @ '': Blog post on this topic.'')
                      else d2
                  | None \<Rightarrow> d2)
         else d1)"

definition blogCategorySelectors :: "string list" where
  "blogCategorySelectors =
     [''.post-categories a'', ''.blog-categories a'', ''.categories a'',
      ''meta[property=\"article:section\"]'', ''.entry-categories a'', ''.post-meta .category'',
      ''.blog-detail-categories a'', ''.post-category'', ''.article-categories'',
      ''.kategori a'', ''.blog-kategori a'', ''.icerik-kategori'', ''.breadcrumb li a'']"

text \<open>
  The category loop: \<open>categories\<close> is reassigned at every selector that finds elements,
  and the loop stops when the assigned list is not empty.
\<close>

fun blog_categories_from :: "document \<Rightarrow> string list \<Rightarrow> string list \<Rightarrow> string list" where
  "blog_categories_from doc categories [] = categories"
| "blog_categories_from doc categories (sel # sels) =
     (case querySelectorAll doc sel of
        [] \<Rightarrow> blog_categories_from doc categories sels
      | els \<Rightarrow>
          (let categories' = filter_Boolean (map content_or_text els)
           in if categories' \<noteq> [] then categories'
              else blog_categories_from doc categories' sels))"

definition blogCategories_of :: "string \<Rightarrow> document \<Rightarrow> string list" where
  "blogCategories_of u doc =
     (let categories = blog_categories_from doc [] blogCategorySelectors;
          categories =
            (if str_includes (toLowerCase u) ''toptanturkiye.com''
             then (case match_segment False [''blog/kategori''] u of
                     Some categorySlug \<Rightarrow> categories @ [humanize categorySlug]
                   | None \<Rightarrow> categories)
             else categories)
      in if categories \<noteq> [] then categories else [''Uncategorized''])"

definition blogContentSelectors :: "string list" where
  "blogContentSelectors =
     [''article .content'', ''.post-content'', ''.blog-content'', ''.entry-content'',
      ''.blog-detail-content'', ''.article-content'', ''article p'', ''.post .entry'',
      ''.blog-text'', ''.icerik-content'', ''.blog-icerik'']"

fun blog_content_from :: "document \<Rightarrow> string list \<Rightarrow> string option" where
  "blog_content_from doc [] = None"
| "blog_content_from doc (sel # sels) =
     (case querySelector doc sel of
        None \<Rightarrow> blog_content_from doc sels
      | Some el \<Rightarrow>
          (let contentText = text_trimmed el
           in if contentText \<noteq> [] \<and> length contentText > 20
              then Some (take 300 contentText @ ''...'')
              else blog_content_from doc sels))"

definition blogImageSelectors :: "string list" where
  "blogImageSelectors =
     [''.post-featured-image img'', ''.blog-image img'', ''.entry-image img'', ''article img'',
      ''.post img'', ''.blog-featured-image img'', ''.icerik-resim img'',
      ''.blog-icerik-image img'', ''.blog-cover img'']"

text \<open>\<^verbatim>\<open>n > 0\<close> and \<^verbatim>\<open>n < 100\<close> for a number that may be \<^verbatim>\<open>NaN\<close>.\<close>

definition num_gt :: "int option \<Rightarrow> int \<Rightarrow> bool" where
  "num_gt n k = (case n of None \<Rightarrow> False | Some v \<Rightarrow> v > k)"

definition num_lt :: "int option \<Rightarrow> int \<Rightarrow> bool" where
  "num_lt n k = (case n of None \<Rightarrow> False | Some v \<Rightarrow> v < k)"

text \<open>\<^verbatim>\<open>a || 'literal'\<close>.\<close>

definition or_default :: "string option \<Rightarrow> string \<Rightarrow> string" where
  "or_default a d = (case a of None \<Rightarrow> d | Some t \<Rightarrow> if t = [] then d else t)"

definition featured_src :: "element \<Rightarrow> string option" where
  "featured_src img =
     (let src = js_or (getAttribute img ''src'')
                  (js_or (getAttribute img ''data-src'') (getAttribute img ''data-original''));
          width = parseInt (or_default (getAttribute img ''width'') ''0'');
          height = parseInt (or_default (getAttribute img ''height'') ''0'')
      in if num_gt width 0 \<and> num_gt height 0 \<and> (num_lt width 100 \<or> num_lt height 100)
         then None else src)"

fun featured_images :: "document \<Rightarrow> string list \<Rightarrow> string list option" where
  "featured_images doc [] = None"
| "featured_images doc (sel # sels) =
     (case querySelectorAll doc sel of
        [] \<Rightarrow> featured_images doc sels
      | els \<Rightarrow>
          (let found = filter_Boolean (map featured_src els)
           in if found \<noteq> [] then Some found else featured_images doc sels))"

definition content_images :: "document \<Rightarrow> string list option" where
  "content_images doc =
     (case querySelectorAll doc
             ''article img, .post-content img, .blog-content img, .icerik img'' of
        [] \<Rightarrow> None
      | els \<Rightarrow>
          Some (filter (\<lambda>src. \<not> str_includes src ''icon'' \<and> \<not> str_includes src ''logo''
                              \<and> \<not> str_includes src ''avatar'' \<and> \<not> str_includes src ''spinner''
                              \<and> \<not> str_includes src ''loading'')
                  (filter_Boolean
                     (map (\<lambda>img. js_or (getAttribute img ''src'') (getAttribute img ''data-src''))
                        els))))"

text \<open>
  The repair of a relative image URL. \<^verbatim>\<open>new URL(url).origin\<close> throws when the page URL
  does not parse.
\<close>

definition fix_image_url :: "world \<Rightarrow> string \<Rightarrow> string \<Rightarrow> js_error + string" where
  "fix_image_url w u img =
     (if img = [] then Inr []
      else if startsWith img ''//'' then Inr (''https:'' @ img)
      else if \<not> startsWith img ''http'' \<and> \<not> startsWith img ''data:''
        then (case URL_new w u of
                None \<Rightarrow> Inl TypeError
              | Some parsed \<Rightarrow>
                  Inr (if startsWith img ''/'' then origin parsed @ img
                       else origin parsed @ ''/'' @ img))
      else Inr img)"

definition og_image :: "document \<Rightarrow> string option" where
  "og_image doc =
     (case querySelector doc ''meta[property=\"og:image\"]'' of
        None \<Rightarrow> None
      | Some el \<Rightarrow> getAttribute el ''content'')"

text \<open>
  The image block of a blog page (lines 716-807), entered when the record has no image
  yet: \<open>current\<close> is \<^verbatim>\<open>pageData.images\<close> on entry.
\<close>

definition blog_images :: "world \<Rightarrow> string \<Rightarrow> document \<Rightarrow> string list \<Rightarrow> js_error + string list"
  where
  "blog_images w u doc current =
     (if current \<noteq> [] then Inr current
      else
        (let imgs = (case featured_images doc blogImageSelectors of
                       Some found \<Rightarrow> found
                     | None \<Rightarrow> (case content_images doc of Some found \<Rightarrow> found | None \<Rightarrow> current))
         in case (if imgs \<noteq> []
                  then (case Promise_all (map (fix_image_url w u) imgs) of
                          Inl e \<Rightarrow> Inl e
                        | Inr fixed \<Rightarrow> Inr (filter (\<lambda>img. img \<noteq> []) fixed))
                  else Inr imgs) of
              Inl e \<Rightarrow> Inl e
            | Inr imgs \<Rightarrow>
                (let imgs = (if imgs = []
                             then (case og_image doc of
                                     None \<Rightarrow> imgs
                                   | Some ogImage \<Rightarrow> if ogImage \<noteq> [] then [ogImage] else imgs)
                             else imgs)
                 in Inr (if imgs = []
                         then [''https://via.placeholder.com/800x400?text=Blog+Post'']
                         else imgs))))"

definition extract_blog :: "world \<Rightarrow> string \<Rightarrow> document \<Rightarrow> PageData \<Rightarrow> js_error + PageData" where
  "extract_blog w u doc pageData =
     (case blog_images w u doc (case images pageData of None \<Rightarrow> [] | Some imgs \<Rightarrow> imgs) of
        Inl e \<Rightarrow> Inl e
      | Inr imgs \<Rightarrow>
          Inr (pageData\<lparr>type := Some Blog,
                 date := blog_date w doc,
                 description := blog_description doc (title pageData) (description pageData),
                 blogCategories := Some (blogCategories_of u doc),
                 blogContent := (case blog_content_from doc blogContentSelectors of
                                   Some c \<Rightarrow> Some c
                                 | None \<Rightarrow> blogContent pageData),
                 images := Some imgs\<rparr>))"

subsection \<open>Product pages (lines 810-981)\<close>

definition priceSelectors :: "string list" where
  "priceSelectors =
     [''.product-price'', ''.price'', ''[itemprop=\"price\"]'',
      ''meta[property=\"product:price:amount\"]'', ''.product-price-container .product-price'',
      ''.product-info .price'', ''.primary-price'', ''#product-price'', ''.current-price'',
      ''.product-card__price'']"

definition stockSelectors :: "string list" where
  "stockSelectors =
     [''.stock'', ''[itemprop=\"availability\"]'', ''.availability'', ''.stock-status'',
      ''.product-stock-status'', ''[data-stock-status]'']"

definition stock_status :: "document \<Rightarrow> string" where
  "stock_status doc =
     (case first_element doc stockSelectors of
        None \<Rightarrow> ''Available''
      | Some el \<Rightarrow>
          (let stockText = text_trimmed el
           in if stockText \<noteq> []
                 \<and> (str_includes (toLowerCase stockText) ''out''
                    \<or> str_includes (toLowerCase stockText) ''yok''
                    \<or> str_includes (toLowerCase stockText) (''t'' @ u_umlaut @ ''kendi''))
              then stockText
              else if stockText \<noteq> [] then stockText
              else ''Available''))"

definition featureSelectors :: "string list" where
  "featureSelectors =
     [''.product-features li'', ''.features li'', ''.specifications li'',
      ''[itemprop=\"description\"] li'', ''.product-properties li'', ''.product-detail ul li'',
      ''.product-tabs .tab-content li'', ''.product-detail-tab-content li'']"

definition featureParagraphSelectors :: "string list" where
  "featureParagraphSelectors =
     [''.product-description p'', ''.product-detail-description p'',
      ''[itemprop=\"description\"] p'', ''.product-info-description p'']"

text \<open>
  The two feature loops: the texts of the first selector whose elements give at least
  one text that passes the test \<open>keep\<close>.
\<close>

fun features_from :: "(string \<Rightarrow> bool) \<Rightarrow> document \<Rightarrow> string list \<Rightarrow> string list" where
  "features_from keep doc [] = []"
| "features_from keep doc (sel # sels) =
     (let found = filter keep (map text_trimmed (querySelectorAll doc sel))
      in if found \<noteq> [] then found else features_from keep doc sels)"

definition product_features :: "document \<Rightarrow> string list" where
  "product_features doc =
     (let found = features_from (\<lambda>t. t \<noteq> []) doc featureSelectors
      in if found = []
         then features_from (\<lambda>t. t \<noteq> [] \<and> length t > 10) doc featureParagraphSelectors
         else found)"

definition productCategorySelectors :: "string list" where
  "productCategorySelectors =
     [''.product-category'', ''[itemprop=\"category\"]'', ''.breadcrumb li:nth-child(2)'',
      ''meta[property=\"product:category\"]'', ''.product-meta .category'',
      ''.product-detail .category a'', ''.product-detail-category'']"

definition product_category :: "document \<Rightarrow> string option \<Rightarrow> string option" where
  "product_category doc current =
     (let c1 = (case first_element doc productCategorySelectors of
                  None \<Rightarrow> current
                | Some el \<Rightarrow> content_or_text el);
          c2 = (if \<not> truthy c1
                then (let crumbs = extractBreadcrumb doc
                      in if length crumbs > 1 then Some (crumbs ! (length crumbs - 2)) else c1)
                else c1)
      in if \<not> truthy c2 then Some ''Products'' else c2)"

definition productImageSelectors :: "string list" where
  "productImageSelectors =
     [''.product-images img[src]'', ''.product-gallery img[src]'', ''.product-image img[src]'',
      ''.product-detail-image img[src]'', ''.product-photos img[src]'',
      ''.swiper-slide img[src]'', ''#productImage'', ''[itemprop=\"image\"]'']"

fun product_images_from :: "document \<Rightarrow> string list \<Rightarrow> string list option" where
  "product_images_from doc [] = None"
| "product_images_from doc (sel # sels) =
     (let imageUrls = filter_Boolean (map (\<lambda>img. getAttribute img ''src'')
                                        (querySelectorAll doc sel))
      in if imageUrls \<noteq> [] then Some imageUrls else product_images_from doc sels)"

definition extract_product :: "document \<Rightarrow> PageData \<Rightarrow> PageData" where
  "extract_product doc pageData =
     pageData\<lparr>type := Some Product,
       price := (case first_element doc priceSelectors of
                   None \<Rightarrow> price pageData
                 | Some el \<Rightarrow> content_or_text el),
       stockStatus := Some (stock_status doc),
       features := Some (product_features doc),
       category := product_category doc (category pageData),
       images := (if (case images pageData of None \<Rightarrow> True | Some imgs \<Rightarrow> imgs = [])
                  then (case product_images_from doc productImageSelectors of
                          Some imageUrls \<Rightarrow> Some imageUrls
                        | None \<Rightarrow> images pageData)
                  else images pageData)\<rparr>"

subsection \<open>Category pages (lines 983-1032)\<close>

definition headingSelectors :: "string list" where
  "headingSelectors =
     [''h1.category-title'', ''.category-header h1'', ''.page-title'', ''.category-name'',
      ''.collection-title'', ''.products-category h1'']"

definition extract_category :: "string \<Rightarrow> document \<Rightarrow> PageData \<Rightarrow> PageData" where
  "extract_category u doc pageData =
     (let c1 = (case match_segment True
                       [''kategori'', ''category'', ''cat'', ''collections'', ''product-category'']
                       u of
                  Some categorySlug \<Rightarrow> Some (humanize categorySlug)
                | None \<Rightarrow> category pageData);
          c2 = (case first_element doc headingSelectors of
                  Some el \<Rightarrow> Some (text_trimmed el)
                | None \<Rightarrow> c1);
          c3 = (if \<not> truthy c2
                then (case path_parts u of
                        [] \<Rightarrow> c2
                      | urlParts \<Rightarrow> Some (humanize (last urlParts)))
                else c2)
      in pageData\<lparr>type := Some Category, category := c3\<rparr>)"

subsection \<open>Static pages (lines 1034-1059)\<close>

definition staticContentSelectors :: "string list" where
  "staticContentSelectors = [''.page-content'', ''.entry-content'', ''main'', ''.content'']"

definition extract_static :: "document \<Rightarrow> PageData \<Rightarrow> PageData" where
  "extract_static doc pageData =
     pageData\<lparr>type := Some Static,
       title := (case querySelector doc ''h1'' of
                   None \<Rightarrow> title pageData
                 | Some h1 \<Rightarrow> if textContent h1 \<noteq> [] then Some (text_trimmed h1)
                              else title pageData),
       description := (case first_element doc staticContentSelectors of
                         None \<Rightarrow> description pageData
                       | Some el \<Rightarrow> Some (take 200 (text_trimmed el) @ ''...''))\<rparr>"

subsection \<open>The extractor (lines 475-1081)\<close>

text \<open>The record before the page type is determined (lines 493-518).\<close>

definition initial_images :: "document \<Rightarrow> string list" where
  "initial_images doc =
     (case og_image doc of
        Some ogImage \<Rightarrow> if ogImage \<noteq> [] then [ogImage] else
          take 5 (filter_Boolean (map (\<lambda>img. getAttribute img ''src'')
                                    (querySelectorAll doc ''img[src]'')))
      | None \<Rightarrow>
          take 5 (filter_Boolean (map (\<lambda>img. getAttribute img ''src'')
                                    (querySelectorAll doc ''img[src]''))))"

definition meta_content :: "document \<Rightarrow> string \<Rightarrow> string option" where
  "meta_content doc sel =
     (case querySelector doc sel of None \<Rightarrow> None | Some el \<Rightarrow> getAttribute el ''content'')"

definition initial_record :: "world \<Rightarrow> string \<Rightarrow> document \<Rightarrow> PageData" where
  "initial_record w u doc =
     (PageData_of_url u)\<lparr>
       title := Some (or_default (js_or (Some (doc_title doc)) (Some (last_segment u)))
                        ''Untitled''),
       description := Some (or_default
                              (js_or (meta_content doc ''meta[name=\"description\"]'')
                                 (meta_content doc ''meta[property=\"og:description\"]''))
                              ''No description available''),
       timestamp := Some (now_iso w),
       images := Some (initial_images doc)\<rparr>"

definition is_blog_page :: "string \<Rightarrow> document \<Rightarrow> bool" where
  "is_blog_page urlLower doc =
     (str_includes urlLower ''/blog/'' \<or> str_includes urlLower ''/icerik/''
      \<or> str_includes urlLower ''/kategori/'' \<or> str_includes urlLower ''/news/''
      \<or> str_includes urlLower ''/article/'' \<or> str_includes urlLower ''/post/''
      \<or> querySelector doc ''article, .post, .blog-post'' \<noteq> None)"

definition is_product_page :: "string \<Rightarrow> document \<Rightarrow> bool" where
  "is_product_page urlLower doc =
     (str_includes urlLower ''/product/'' \<or> str_includes urlLower ''/urun/''
      \<or> querySelector doc ''.product-detail, .product, [itemtype*=\"Product\"]'' \<noteq> None)"

definition is_category_page :: "string \<Rightarrow> document \<Rightarrow> bool" where
  "is_category_page urlLower doc =
     (str_includes urlLower ''/category/'' \<or> str_includes urlLower ''/kategori/''
      \<or> str_includes urlLower ''/blog/kategori/'' \<or> str_includes urlLower ''/blog/category/''
      \<or> str_includes urlLower ''/cat/'' \<or> str_includes urlLower ''/collections/''
      \<or> str_includes urlLower ''/product-category/''
      \<or> querySelector doc ''.category-description, .category-header, .products-category''
          \<noteq> None)"

text \<open>The record of the \<^verbatim>\<open>catch\<close> block (lines 1069-1080).\<close>

definition fallback_record :: "world \<Rightarrow> string \<Rightarrow> js_error \<Rightarrow> PageData" where
  "fallback_record w u e =
     (PageData_of_url u)\<lparr>
       title := Some (or_default (Some (dashes_to_spaces (last_segment u))) u),
       error := Some (error_text e),
       timestamp := Some (now_iso w),
       type := Some Others,
       stockStatus := Some ''Available'',
       images := Some []\<rparr>"

definition extractPageData_try :: "world \<Rightarrow> string \<Rightarrow> js_error + PageData" where
  "extractPageData_try w u =
     (case get_page w u of
        None \<Rightarrow> Inl RequestFailed
      | Some doc \<Rightarrow>
          (let pageData = initial_record w u doc;
               urlLower = toLowerCase u
           in case (if is_blog_page urlLower doc then extract_blog w u doc pageData
                    else if is_product_page urlLower doc then Inr (extract_product doc pageData)
                    else if is_category_page urlLower doc
                      then Inr (extract_category u doc pageData)
                    else Inr (extract_static doc pageData)) of
                Inl e \<Rightarrow> Inl e
              | Inr pageData \<Rightarrow>
                  (let crumbs = extractBreadcrumb doc
                   in Inr (if crumbs \<noteq> [] then pageData\<lparr>breadcrumb := Some crumbs\<rparr>
                           else pageData))))"

definition extractPageData :: "world \<Rightarrow> string \<Rightarrow> PageData" where
  "extractPageData w u =
     (case extractPageData_try w u of
        Inl e \<Rightarrow> fallback_record w u e
      | Inr pageData \<Rightarrow> pageData)"



section \<open>Coverage guarantor: supplementary discovery\<close>

text \<open>
  The link crawls of \<^verbatim>\<open>extractProductUrlsFromCategories\<close> (lines 1435-1485) and
  \<^verbatim>\<open>extractBlogUrlsFromSite\<close> (lines 1488-1535): every link of a page whose absolute
  form contains \<open>inc\<close>, does not contain \<^verbatim>\<open>/kategori/\<close> and was not found before is
  appended. A link whose \<^verbatim>\<open>href\<close> is empty or does not resolve is skipped.
\<close>

definition crawl_link :: "world \<Rightarrow> string \<Rightarrow> string \<Rightarrow> string list \<Rightarrow> element \<Rightarrow> string list"
  where
  "crawl_link w inc pageUrl found link =
     (case getAttribute link ''href'' of
        None \<Rightarrow> found
      | Some href \<Rightarrow>
          if href = [] then found
          else (case URL_href w href pageUrl of
                  None \<Rightarrow> found
                | Some absolute \<Rightarrow>
                    if str_includes absolute inc \<and> \<not> str_includes absolute ''/kategori/''
                       \<and> absolute \<notin> set found
                    then found @ [absolute] else found))"

definition crawl_page :: "world \<Rightarrow> string \<Rightarrow> string list \<Rightarrow> string \<Rightarrow> string list" where
  "crawl_page w inc found pageUrl =
     (case get_page w pageUrl of
        None \<Rightarrow> found
      | Some doc \<Rightarrow> foldl (crawl_link w inc pageUrl) found (querySelectorAll doc ''a[href]''))"

definition extractProductUrlsFromCategories :: "world \<Rightarrow> string list \<Rightarrow> string list" where
  "extractProductUrlsFromCategories w categoryUrls =
     foldl (crawl_page w ''/urun/'') [] (take 10 categoryUrls)"

definition extractBlogUrlsFromSite :: "world \<Rightarrow> string \<Rightarrow> string list" where
  "extractBlogUrlsFromSite w baseUrl =
     crawl_page w ''/blog/icerik/'' [] (strip_trailing_slashes baseUrl @ ''/blog'')"

text \<open>
  \<^verbatim>\<open>extractBlogPostUrls\<close> (lines 1083-1108). The links of a page are filtered on the
  raw \<^verbatim>\<open>href\<close> and then all resolved; when one does not resolve the page contributes
  nothing. \<^verbatim>\<open>[...new Set(xs)]\<close> keeps the first occurrence of each string.
\<close>

definition urlPatterns_blog :: "string list" where
  "urlPatterns_blog =
     [''/blog/'', ''/post/'', ''/article/'', ''/news/'',
      ''/makale/'', ''/yazi/'', ''/blog-detail/'', ''/entry/'',
      ''/gundem/'', ''/duyuru/'', ''/haber/'', ''/content/'',
      ''/blogs/'', ''/articles/'', ''/posts/'', ''/news-item/'',
      ''/icerik/'']"

definition unique_first :: "string list \<Rightarrow> string list" where
  "unique_first xs = rev (remdups (rev xs))"

definition blog_post_links :: "world \<Rightarrow> string \<Rightarrow> string list" where
  "blog_post_links w pageUrl =
     (case get_page w pageUrl of
        None \<Rightarrow> []
      | Some doc \<Rightarrow>
          (let links = filter (\<lambda>href. list_ex (\<lambda>pattern. str_includes (toLowerCase href)
                                                           (toLowerCase pattern))
                                          urlPatterns_blog)
                         (filter_Boolean (map (\<lambda>a. getAttribute a ''href'')
                                            (querySelectorAll doc ''a[href]'')))
           in case Promise_all (map (\<lambda>link. case URL_href w link pageUrl of
                                                None \<Rightarrow> Inl TypeError
                                              | Some absolute \<Rightarrow> Inr absolute) links) of
                Inl e \<Rightarrow> []
              | Inr absoluteLinks \<Rightarrow> absoluteLinks))"

definition extractBlogPostUrls :: "world \<Rightarrow> string list \<Rightarrow> string list" where
  "extractBlogPostUrls w categoryUrls =
     unique_first (concat (map (blog_post_links w) categoryUrls))"

section \<open>Aggregator\<close>

text \<open>
  \<^verbatim>\<open>addCommonStaticPages\<close> (lines 1267-1291): the candidates that answer a HEAD request
  with 200 and are not in the list are appended.
\<close>

definition commonStaticPatterns :: "string list" where
  "commonStaticPatterns =
     [''about'', ''contact'', ''faq'', ''terms'', ''privacy'',
      ''hakkimizda'', ''iletisim'', ''sss'', ''gizlilik-politikasi'',
      ''satis-sozlesmesi'', ''kargo-takibi'', ''siparis-sorgula'',
      ''sayfa'', ''pages'', ''page'']"

definition addCommonStaticPages :: "world \<Rightarrow> string \<Rightarrow> string list \<Rightarrow> string list" where
  "addCommonStaticPages w baseUrl urls =
     urls @ filter (\<lambda>candidate. head_200 w candidate \<and> candidate \<notin> set urls)
              (map (\<lambda>pattern. baseUrl @ ''/'' @ pattern) commonStaticPatterns)"

text \<open>
  \<^verbatim>\<open>ensureSingleUrlData\<close> (lines 1408-1431): the extracted record with its type replaced
  by the category of the classifier. \<^verbatim>\<open>extractPageData\<close> never rejects, so the
  \<^verbatim>\<open>catch\<close> block is never entered.
\<close>

definition ensureSingleUrlData :: "world \<Rightarrow> string \<Rightarrow> label \<Rightarrow> PageData" where
  "ensureSingleUrlData w u cat = (extractPageData w u)\<lparr>type := Some cat\<rparr>"

text \<open>
  The buckets of the classifier, in the key order of the object literal, which is the
  order in which \<^verbatim>\<open>Object.entries\<close> lists them.
\<close>

type_synonym buckets = "(label \<times> string list) list"

definition empty_buckets :: buckets where
  "empty_buckets = [(Product, []), (Category, []), (Blog, []), (Static, []), (Others, [])]"

definition bucket :: "buckets \<Rightarrow> label \<Rightarrow> string list" where
  "bucket b l = (case map_of b l of None \<Rightarrow> [] | Some urls \<Rightarrow> urls)"

fun categorize_all :: "world \<Rightarrow> string list \<Rightarrow> buckets \<Rightarrow> js_error + buckets" where
  "categorize_all w [] b = Inr b"
| "categorize_all w (u # us) b =
     (case categorizeUrl w (JStr u) of
        Inl e \<Rightarrow> Inl e
      | Inr cat \<Rightarrow> categorize_all w us (AList.map_entry cat (\<lambda>urls. urls @ [u]) b))"

text \<open>
  \<^verbatim>\<open>categorizeUrls\<close> (lines 267-294): the classifier over a list, with its call in a
  \<^verbatim>\<open>try\<close> whose \<^verbatim>\<open>catch\<close> files the URL under \<^verbatim>\<open>'others'\<close>.
\<close>

fun categorizeUrls_from :: "world \<Rightarrow> string list \<Rightarrow> buckets \<Rightarrow> buckets" where
  "categorizeUrls_from w [] result = result"
| "categorizeUrls_from w (u # us) result =
     (case categorizeUrl w (JStr u) of
        Inr cat \<Rightarrow> categorizeUrls_from w us (AList.map_entry cat (\<lambda>urls. urls @ [u]) result)
      | Inl e \<Rightarrow> categorizeUrls_from w us (AList.map_entry Others (\<lambda>urls. urls @ [u]) result))"

definition categorizeUrls :: "world \<Rightarrow> string list \<Rightarrow> buckets" where
  "categorizeUrls w urls = categorizeUrls_from w urls empty_buckets"

text \<open>
  Lines 1610-1622: the records of one category, extracted through the batch scheduler
  and merged into the result. A slot that holds \<^verbatim>\<open>{error}\<close> has no \<^verbatim>\<open>data\<close> and is
  skipped.
\<close>

definition merge_slot :: "page_map \<Rightarrow> (string \<times> PageData) slot \<Rightarrow> page_map" where
  "merge_slot result s =
     (case s of Value (u, data) \<Rightarrow> AList.update u data result | ErrorObject e \<Rightarrow> result)"

definition process_category :: "world \<Rightarrow> page_map \<Rightarrow> label \<times> string list \<Rightarrow> page_map" where
  "process_category w result entry =
     (case entry of
        (cat, categoryUrls) \<Rightarrow>
          foldl merge_slot result
            (processInBatches categoryUrls
               (\<lambda>u. Fulfilled (u, ensureSingleUrlData w u cat))))"

text \<open>
  \<^verbatim>\<open>processAllUrls\<close> (lines 1543-1625). It rejects when one of the first five URLs does
  not parse (the tracing loop), when the classifier rejects, and when no blog URL was
  classified and the first URL is missing or does not parse.
\<close>

definition processAllUrls :: "world \<Rightarrow> string list \<Rightarrow> js_error + page_map" where
  "processAllUrls w urls =
     (if \<not> list_all (valid_url w) (take 5 urls) then Inl TypeError
      else
        (case categorize_all w urls empty_buckets of
           Inl e \<Rightarrow> Inl e
         | Inr categorizedUrls \<Rightarrow>
             (let categorizedUrls =
                    (if bucket categorizedUrls Category \<noteq> [] \<and> bucket categorizedUrls Product = []
                     then AList.update Product
                            (extractProductUrlsFromCategories w (bucket categorizedUrls Category))
                            categorizedUrls
                     else categorizedUrls)
              in case (if bucket categorizedUrls Blog = []
                       then (case urls of
                               [] \<Rightarrow> Inl TypeError
                             | first # _ \<Rightarrow>
                                 (case URL_new w first of
                                    None \<Rightarrow> Inl TypeError
                                  | Some parsed \<Rightarrow>
                                      Inr (AList.update Blog
                                             (extractBlogUrlsFromSite w (origin parsed))
                                             categorizedUrls)))
                       else Inr categorizedUrls) of
                   Inl e \<Rightarrow> Inl e
                 | Inr categorizedUrls \<Rightarrow>
                     (let blogCategoryUrls =
                            filter (\<lambda>u. str_includes (toLowerCase u) ''/blog/'')
                              (bucket categorizedUrls Category);
                          categorizedUrls =
                            (if blogCategoryUrls \<noteq> []
                             then AList.update Blog
                                    (bucket categorizedUrls Blog
                                     @ filter (\<lambda>u. u \<notin> set (bucket categorizedUrls Blog))
                                         (extractBlogPostUrls w blogCategoryUrls))
                                    categorizedUrls
                             else categorizedUrls)
                      in Inr (foldl (process_category w) [] categorizedUrls)))))"

text \<open>\<^verbatim>\<open>processSitemap\<close> (lines 1737-1782).\<close>

definition sample_blog_post :: "world \<Rightarrow> string \<Rightarrow> PageData" where
  "sample_blog_post w blogUrl =
     (PageData_of_url blogUrl)\<lparr>
        title := Some ''Sample Blog Post'',
        description := Some ''This is a sample blog post created automatically.'',
        type := Some Blog,
        timestamp := Some (now_iso w),
        date := Some (today w),
        blogCategories := Some [''Sample'', ''Blog''],
        blogContent := Some (''This is a sample blog post content. ''
                             @ ''The actual content would be fetched from the website.''),
        images := Some [''https://via.placeholder.com/800x400?text=Sample+Blog+Post'']\<rparr>"

definition processSitemap ::
  "world \<Rightarrow> string \<Rightarrow> js_error + (page_map \<times> (string \<times> nat) list)" where
  "processSitemap w siteUrl =
     (case fetchSitemapUrls w siteUrl 0 of
        Inl e \<Rightarrow> Inl e
      | Inr urls \<Rightarrow>
          (let allUrls = addCommonStaticPages w siteUrl urls
           in case processAllUrls w allUrls of
                Inl e \<Rightarrow> Inl e
              | Inr pageData \<Rightarrow>
                  (let pageData = ensureMinimumPageTypes w siteUrl pageData;
                       pageData =
                         (if \<not> list_ex (\<lambda>item. type item = Some Blog) (Object_values pageData)
                          then (let blogUrl = strip_trailing_slashes siteUrl @ ''/blog/sample-post''
                                in AList.update blogUrl (sample_blog_post w blogUrl) pageData)
                          else pageData)
                   in Inr (pageData, getPageStats pageData))))"

text \<open>
  A site whose sitemap, found at \<^verbatim>\<open>/sitemap.xml\<close>, lists one static page and one page
  of no category; no page loads.
\<close>

definition small_site_xml :: "string \<Rightarrow> xml_doc option" where
  "small_site_xml u =
     (if u = ''https://x/sitemap.xml''
      then Some (UrlSet [Some ''https://x/about'', Some ''https://x/random/xyz''])
      else None)"

definition small_site :: world where
  "small_site =
     offline_world\<lparr>get_xml := small_site_xml,
                     head_200 := (\<lambda>u. u = ''https://x/sitemap.xml'')\<rparr>"

text \<open>The record map that \<^verbatim>\<open>processSitemap\<close> returns for that site.\<close>

definition small_site_pages :: page_map where
  "small_site_pages =
     ensureMinimumPageTypes small_site ''https://x''
       [(''https://x/about'',
         (fallback_record small_site ''https://x/about'' RequestFailed)\<lparr>type := Some Static\<rparr>),
        (''https://x/random/xyz'',
         (fallback_record small_site ''https://x/random/xyz'' RequestFailed)
           \<lparr>type := Some Others\<rparr>)]"

section \<open>Properties of the classifier\<close>

lemma url_http_urun:
  "URL_new offline_world ''https://x/urun/123''
     = Some \<lparr>origin = ''https://x'', pathname = ''/urun/123''\<rparr>"
  by code_simp

lemma url_http_malformed: "URL_new offline_world ''not a url'' = None"
  by code_simp

text \<open>
  C3 (as stated, refuted). The specification says \<^verbatim>\<open>categorizeUrl\<close> never raises, also on a
  string that is not a well-formed URL. On such a string \<^verbatim>\<open>new URL(url)\<close> throws and
  nothing in \<^verbatim>\<open>categorizeUrl\<close> catches it: the call rejects with a TypeError.
\<close>

theorem categorizeUrl_raises_on_malformed:
  "categorizeUrl offline_world (JStr ''not a url'') = Inl TypeError"
  by code_simp

text \<open>
  C3 (amended). \<^verbatim>\<open>categorizeUrl\<close> raises exactly on a non-empty string that the URL
  parser rejects (and then a TypeError); on every other argument it returns one of the
  five labels, and on an empty string or a value that is not a string the label is
  \<^verbatim>\<open>'static'\<close>. The caller \<^verbatim>\<open>categorizeUrls\<close> catches the TypeError and files the URL
  under \<^verbatim>\<open>'others'\<close>.
\<close>

theorem categorizeUrl_total_where_parsed:
  "((categorizeUrl w v = Inl TypeError)
      = (case v of JStr s \<Rightarrow> s \<noteq> [] \<and> URL_new w s = None | _ \<Rightarrow> False))
   \<and> (categorizeUrl w v \<noteq> Inl TypeError \<longrightarrow> (\<exists>l. categorizeUrl w v = Inr l))
   \<and> ((case v of JStr s \<Rightarrow> s = [] | _ \<Rightarrow> True) \<longrightarrow> categorizeUrl w v = Inr Static)
   \<and> (categorizeUrl w (JStr u) = Inl TypeError \<longrightarrow> bucket (categorizeUrls w [u]) Others = [u])"
  by (auto simp: categorizeUrl_def categorizeUrls_def empty_buckets_def bucket_def
        split: jsval.splits option.splits)

theorem categorizeUrl_total_where_parsed_witness:
  "categorizeUrl offline_world (JStr ''https://x/urun/123'') \<noteq> Inl TypeError
   \<and> (\<exists>l. categorizeUrl offline_world (JStr ''https://x/urun/123'') = Inr l)
   \<and> categorizeUrl offline_world JUndefined = Inr Static
   \<and> categorizeUrl offline_world (JStr []) = Inr Static
   \<and> categorizeUrl offline_world (JStr ''not a url'') = Inl TypeError
   \<and> bucket (categorizeUrls offline_world [''not a url'']) Others = [''not a url'']"
  using categorizeUrl_total_where_parsed [of offline_world "JStr ''https://x/urun/123''"]
    categorizeUrl_total_where_parsed [of offline_world JUndefined]
    categorizeUrl_total_where_parsed [of offline_world "JStr []"]
    categorizeUrl_total_where_parsed [of offline_world "JStr ''not a url''" "''not a url''"]
  by (simp add: url_http_urun url_http_malformed)

text \<open>
  C4. The five reference inputs of the specification, with the URLs parsed as the
  platform parses them: the root path is \<^verbatim>\<open>'static'\<close>, \<^verbatim>\<open>/urun/123\<close> is
  \<^verbatim>\<open>'product'\<close>, \<^verbatim>\<open>/blog/icerik/abc\<close> is \<^verbatim>\<open>'blog'\<close>, \<^verbatim>\<open>/kategori/ayakkabi\<close> is
  \<^verbatim>\<open>'category'\<close> and \<^verbatim>\<open>/random/xyz\<close> is \<^verbatim>\<open>'others'\<close>.
\<close>

theorem categorizeUrl_reference_inputs:
  "categorizeUrl offline_world (JStr ''https://x/'') = Inr Static
   \<and> categorizeUrl offline_world (JStr ''https://x/urun/123'') = Inr Product
   \<and> categorizeUrl offline_world (JStr ''https://x/blog/icerik/abc'') = Inr Blog
   \<and> categorizeUrl offline_world (JStr ''https://x/kategori/ayakkabi'') = Inr Category
   \<and> categorizeUrl offline_world (JStr ''https://x/random/xyz'') = Inr Others"
  by code_simp

section \<open>Properties of the batch scheduler\<close>

lemma batch_loop_eq:
  "batch_loop items handler i results
     = results @ map (\<lambda>x. catch_error (handler x)) (drop i items)"
proof (induction items handler i results rule: batch_loop.induct)
  case (1 items handler i results)
  show ?case
  proof (cases "i < length items")
    case True
    have "take maxConcurrent (drop i items) @ drop (i + maxConcurrent) items = drop i items"
      by (metis add.commute append_take_drop_id drop_drop)
    then have "map (\<lambda>x. catch_error (handler x)) (take maxConcurrent (drop i items))
        @ map (\<lambda>x. catch_error (handler x)) (drop (i + maxConcurrent) items)
        = map (\<lambda>x. catch_error (handler x)) (drop i items)"
      by (metis map_append)
    with True 1 show ?thesis
      by (subst batch_loop.simps) (simp add: slice_def comp_def)
  next
    case False
    then show ?thesis by (subst batch_loop.simps) simp
  qed
qed

text \<open>
  C6. For every list of items and every handler, \<^verbatim>\<open>processInBatches\<close> returns one
  slot per item, in the order of the items: the slot of an item is the value its handler
  is fulfilled with, or the \<^verbatim>\<open>{error}\<close> object when its handler rejects. A rejection
  changes no other slot, so the other results are all returned.
\<close>

theorem processInBatches_slots:
  "length (processInBatches items handler) = length items
   \<and> processInBatches items handler = map (\<lambda>x. catch_error (handler x)) items
   \<and> (i < length items \<and> handler (items ! i) = Rejected e
        \<longrightarrow> processInBatches items handler ! i = ErrorObject e)
   \<and> (i < length items \<and> handler (items ! i) = Fulfilled v
        \<longrightarrow> processInBatches items handler ! i = Value v)"
  by (simp add: processInBatches_def batch_loop_eq catch_error_def)

lemma flaky_run:
  "processInBatches [0..<12] flaky_handler
   = [Value 0, Value 2, Value 4, Value 6, Value 8, Value 10, Value 12, Value 14, Value 16,
      Value 18, ErrorObject RequestFailed, Value 22]"
  "flaky_handler 10 = Rejected RequestFailed"
  "flaky_handler 11 = Fulfilled 22"
  by code_simp+

theorem processInBatches_slots_witness:
  "(10::nat) < length [0..<12]
   \<and> flaky_handler ([0..<12] ! 10) = Rejected RequestFailed
   \<and> processInBatches [0..<12] flaky_handler ! 10 = ErrorObject RequestFailed
   \<and> flaky_handler ([0..<12] ! 11) = Fulfilled 22
   \<and> processInBatches [0..<12] flaky_handler ! 11 = Value 22
   \<and> length (processInBatches [0..<12] flaky_handler) = 12
   \<and> processInBatches [0..<12] flaky_handler
       = [Value 0, Value 2, Value 4, Value 6, Value 8, Value 10, Value 12, Value 14, Value 16,
          Value 18, ErrorObject RequestFailed, Value 22]"
  using processInBatches_slots [of "[0..<12]" flaky_handler 10 RequestFailed 22]
    processInBatches_slots [of "[0..<12]" flaky_handler 11 RequestFailed 22]
    flaky_run(1)
  by (simp add: flaky_run(2,3) catch_error_def)

section \<open>Properties of sitemap discovery\<close>



lemma fetch_returns_valid:
  "\<exists>urls. fetchSitemapUrls w u depth = Inr urls \<and> (\<forall>x \<in> set urls. valid_url w x)"
  by (subst fetchSitemapUrls.simps, subst fetchSitemapUrls.simps)
     (auto split: option.splits xml_doc.splits sum.splits)

lemma Promise_all_Inr:
  "\<forall>x \<in> set xs. \<exists>v. f x = Inr v \<Longrightarrow> Promise_all (map f xs) = Inr (map (\<lambda>x. projr (f x)) xs)"
  by (induction xs) auto

lemma concat_windows: "concat (windows xs i) = drop i xs"
proof (induction xs i rule: windows.induct)
  case (1 xs i)
  show ?case
  proof (cases "i < length xs")
    case True
    have "take maxConcurrent (drop i xs) @ drop (i + maxConcurrent) xs = drop i xs"
      by (metis add.commute append_take_drop_id drop_drop)
    with True 1 show ?thesis
      by (subst windows.simps) (simp add: slice_def)
  next
    case False
    then show ?thesis by (subst windows.simps) simp
  qed
qed

lemma collect_windows_Inr:
  "collect_windows acc (map (\<lambda>b. Inr (g b)) bs) = Inr (acc @ concat (map (\<lambda>b. concat (g b)) bs))"
  by (induction bs arbitrary: acc) auto

lemma concat_map_concat: "concat (map (\<lambda>b. concat (map h b)) bs) = concat (map h (concat bs))"
  by (induction bs) auto

lemma fetch_index:
  assumes d: "depth \<le> 5"
    and g: "get_xml w (sitemap_location w u) = Some (SitemapIndex entries)"
    and l: "locs entries = Inr cs"
  shows "fetchSitemapUrls w u depth
           = Inr (concat (map (\<lambda>c. urls_of (fetchSitemapUrls w c (depth + 1))) cs))"
proof -
  let ?f = "\<lambda>c. fetchSitemapUrls w c (depth + 1)"
  have ret: "\<exists>v. ?f c = Inr v" for c
    using fetch_returns_valid [of w c "depth + 1"] by blast
  have pa: "Promise_all (map ?f b) = Inr (map (\<lambda>x. projr (?f x)) b)" for b
  proof (rule Promise_all_Inr)
    show "\<forall>x \<in> set b. \<exists>v. ?f x = Inr v" using ret by blast
  qed
  have "collect_windows [] (map (\<lambda>batch. Promise_all (map ?f batch)) (windows cs 0))
          = Inr ([] @ concat (map (\<lambda>b. concat (map (\<lambda>x. projr (?f x)) b)) (windows cs 0)))"
    by (simp only: pa collect_windows_Inr)
  then have "collect_windows [] (map (\<lambda>batch. Promise_all (map ?f batch)) (windows cs 0))
          = Inr (concat (map (\<lambda>x. projr (?f x)) cs))"
    by (simp only: concat_map_concat concat_windows drop_0 append_Nil)
  moreover have pu: "projr (?f c) = urls_of (?f c)" for c
    using ret [of c] by (auto simp: urls_of_def)
  moreover have "filter (valid_url w) (concat (map (\<lambda>c. urls_of (?f c)) cs))
                   = concat (map (\<lambda>c. urls_of (?f c)) cs)"
  proof (intro filter_True ballI)
    fix x assume "x \<in> set (concat (map (\<lambda>c. urls_of (?f c)) cs))"
    then obtain c where "x \<in> set (urls_of (?f c))" by auto
    then show "valid_url w x"
      using fetch_returns_valid [of w c "depth + 1"] by (auto simp: urls_of_def)
  qed
  ultimately show ?thesis
    using d g l by (subst fetchSitemapUrls.simps) simp
qed





text \<open>
  C7. \<^verbatim>\<open>fetchSitemapUrls\<close> never raises: it returns a list, and every string of the
  list parses as a URL. A node whose fetch or parse fails yields the empty list; a URL
  set yields its entries that parse, the others dropped; an index yields what its
  children yield, each child on its own (a failed child contributes the empty list).
\<close>

theorem fetchSitemapUrls_never_raises:
  "(\<exists>urls. fetchSitemapUrls w u depth = Inr urls \<and> (\<forall>x \<in> set urls. URL_new w x \<noteq> None))
   \<and> (get_xml w (sitemap_location w u) = None \<longrightarrow> fetchSitemapUrls w u depth = Inr [])
   \<and> (depth \<le> 5 \<and> get_xml w (sitemap_location w u) = Some (UrlSet entries)
        \<and> locs entries = Inr ls
      \<longrightarrow> fetchSitemapUrls w u depth = Inr (filter (\<lambda>x. URL_new w x \<noteq> None) ls))
   \<and> (depth \<le> 5 \<and> get_xml w (sitemap_location w u) = Some (SitemapIndex entries)
        \<and> locs entries = Inr cs
      \<longrightarrow> fetchSitemapUrls w u depth
            = Inr (concat (map (\<lambda>c. urls_of (fetchSitemapUrls w c (depth + 1))) cs)))"
proof (intro conjI impI)
  show "\<exists>urls. fetchSitemapUrls w u depth = Inr urls \<and> (\<forall>x \<in> set urls. URL_new w x \<noteq> None)"
    using fetch_returns_valid [of w u depth] by (simp add: valid_url_def)
next
  assume "get_xml w (sitemap_location w u) = None"
  then show "fetchSitemapUrls w u depth = Inr []"
    by (subst fetchSitemapUrls.simps) simp
next
  assume "depth \<le> 5 \<and> get_xml w (sitemap_location w u) = Some (UrlSet entries)
        \<and> locs entries = Inr ls"
  then show "fetchSitemapUrls w u depth = Inr (filter (\<lambda>x. URL_new w x \<noteq> None) ls)"
    by (subst fetchSitemapUrls.simps) (simp add: valid_url_def [abs_def])
next
  assume "depth \<le> 5 \<and> get_xml w (sitemap_location w u) = Some (SitemapIndex entries)
        \<and> locs entries = Inr cs"
  then show "fetchSitemapUrls w u depth
            = Inr (concat (map (\<lambda>c. urls_of (fetchSitemapUrls w c (depth + 1))) cs))"
    by (simp add: fetch_index)
qed

lemma partial_facts:
  "get_xml partial_world (sitemap_location partial_world ''https://x/sitemap-missing.xml'') = None"
  "get_xml partial_world (sitemap_location partial_world ''https://x/sitemap-c.xml'')
     = Some (UrlSet [Some ''https://x/urun/1'', Some ''no scheme''])"
  "get_xml partial_world (sitemap_location partial_world ''https://x/sitemap.xml'')
     = Some (SitemapIndex [Some ''https://x/sitemap-missing.xml'', Some ''https://x/sitemap-c.xml''])"
  "URL_new partial_world ''https://x/urun/1''
     = Some \<lparr>origin = ''https://x'', pathname = ''/urun/1''\<rparr>"
  "URL_new partial_world ''no scheme'' = None"
  by code_simp+

theorem fetchSitemapUrls_never_raises_witness:
  "fetchSitemapUrls partial_world ''https://x/sitemap-missing.xml'' 1 = Inr []
   \<and> fetchSitemapUrls partial_world ''https://x/sitemap-c.xml'' 1 = Inr [''https://x/urun/1'']
   \<and> fetchSitemapUrls partial_world ''https://x/sitemap.xml'' 0 = Inr [''https://x/urun/1'']
   \<and> URL_new partial_world ''https://x/urun/1'' \<noteq> None"
  using fetchSitemapUrls_never_raises [of partial_world "''https://x/sitemap-missing.xml''" 1]
    fetchSitemapUrls_never_raises [of partial_world "''https://x/sitemap-c.xml''" 1
      "[Some ''https://x/urun/1'', Some ''no scheme'']" "[''https://x/urun/1'', ''no scheme'']"]
    fetchSitemapUrls_never_raises [of partial_world "''https://x/sitemap.xml''" 0
      "[Some ''https://x/sitemap-missing.xml'', Some ''https://x/sitemap-c.xml'']"
      _ "[''https://x/sitemap-missing.xml'', ''https://x/sitemap-c.xml'']"]
  by (simp add: partial_facts urls_of_def)

section \<open>Properties of the coverage guarantor's injection\<close>

lemma map_of_fold_update:
  "u \<notin> set (map (\<lambda>(slug, t, d). pre @ slug) pages) \<Longrightarrow>
   map_of (foldl (\<lambda>res (slug, t, d). AList.update (pre @ slug) (f (pre @ slug) t d) res) m pages) u
     = map_of m u"
  by (induction pages arbitrary: m) (auto simp: update_conv')



lemma map_of_add_categories:
  "u \<notin> set (map (\<lambda>(slug, t, d). pre @ slug) pages) \<Longrightarrow>
   map_of (add_categories w pre pages m) u = map_of m u"
  unfolding add_categories_def by (rule map_of_fold_update)


lemma ensure_blog_index:
  "map_of (ensureMinimumPageTypes w baseUrl m) (strip_trailing_slashes baseUrl @ ''/blog'')
     = Some (static_record w (strip_trailing_slashes baseUrl @ ''/blog'') ''Blog''
               (if isTurkishSite m
                then ''Blog yaz'' @ dotless_i @ ''lar'' @ dotless_i @ ''m'' @ dotless_i @ ''z''
                else ''Our blog posts''))"
  by (auto simp: ensureMinimumPageTypes_def Let_def update_conv' map_of_add_categories
        categories_tr_def categories_en_def)




section \<open>Properties of the page content extractor\<close>















section \<open>Properties of the aggregator\<close>

lemma count_type_ge1:
  assumes "map_of m k = Some r" and "type r = Some t"
  shows "1 \<le> count_type t m"
proof -
  from assms(1) have "(k, r) \<in> set m" by (rule map_of_SomeD)
  then have "r \<in> set (Object_values m)" by (force simp: Object_values_def)
  with assms(2) have "filter (\<lambda>item. type item = Some t) (Object_values m) \<noteq> []"
    by (auto simp: filter_empty_conv)
  then show ?thesis
    unfolding count_type_def by (cases "filter (\<lambda>item. type item = Some t) (Object_values m)") auto
qed

lemma list_ex_count_type:
  "list_ex (\<lambda>item. type item = Some t) (Object_values m) = (1 \<le> count_type t m)"
proof -
  have "(1 \<le> count_type t m) = (filter (\<lambda>item. type item = Some t) (Object_values m) \<noteq> [])"
    unfolding count_type_def by (cases "filter (\<lambda>item. type item = Some t) (Object_values m)") auto
  then show ?thesis by (auto simp: list_ex_iff filter_empty_conv)
qed

lemma ensure_has_static: "1 \<le> count_type Static (ensureMinimumPageTypes w b m)"
  by (rule count_type_ge1 [OF ensure_blog_index]) (simp add: static_record_def)

lemma last_blog_post:
  "map_of (add_blog_posts w tr pre (if tr then blogPosts_tr else blogPosts_en) m)
     (pre @ (if tr then ''sektor-haberleri'' else ''industry-news''))
   = Some (blog_record w tr (pre @ (if tr then ''sektor-haberleri'' else ''industry-news''))
             (if tr then ''Sekt'' @ o_umlaut @ ''r Haberleri'' else ''Industry News'')
             (if tr then ''Sekt'' @ o_umlaut @ ''rdeki son geli'' @ s_cedilla @ ''meler.''
              else ''Latest developments in our industry.''))"
  by (simp add: add_blog_posts_def blogPosts_tr_def blogPosts_en_def update_conv')

lemma last_category:
  "map_of (add_categories w pre (if tr then categories_tr else categories_en) m)
     (pre @ (if tr then ''indirimli-urunler'' else ''sale-items''))
   = Some (category_record w (pre @ (if tr then ''indirimli-urunler'' else ''sale-items''))
             (if tr then I_dotted @ ''ndirimli '' @ U_umlaut @ ''r'' @ u_umlaut @ ''nler''
              else ''Sale Items'')
             (if tr then I_dotted @ ''ndirimli '' @ u_umlaut @ ''r'' @ u_umlaut @ ''nlerimiz.''
              else ''Products with special discounts.''))"
  by (simp add: add_categories_def categories_tr_def categories_en_def update_conv')

lemma ensure_has_blog: "1 \<le> count_type Blog (ensureMinimumPageTypes w b m)"
proof -
  let ?tr = "isTurkishSite m"
  let ?k = "strip_trailing_slashes b @ (if ?tr then ''/blog/icerik/'' else ''/blog/'')
              @ (if ?tr then ''sektor-haberleri'' else ''industry-news'')"
  have "\<exists>r. map_of (ensureMinimumPageTypes w b m) ?k = Some r \<and> type r = Some Blog"
    using last_blog_post [of w ?tr "strip_trailing_slashes b @ (if ?tr then ''/blog/icerik/'' else ''/blog/'')"]
    by (auto simp: ensureMinimumPageTypes_def Let_def update_conv' map_of_add_categories
          categories_tr_def categories_en_def blog_record_def)
  then show ?thesis using count_type_ge1 by blast
qed

lemma ensure_has_category: "1 \<le> count_type Category (ensureMinimumPageTypes w b m)"
proof -
  let ?tr = "isTurkishSite m"
  let ?pre = "strip_trailing_slashes b @ (if ?tr then ''/kategori/'' else ''/category/'')"
  have c: "1 \<le> count_type Category
             (add_categories w ?pre (if ?tr then categories_tr else categories_en) m')" for m'
    by (rule count_type_ge1 [OF last_category]) (simp add: category_record_def)
  show ?thesis
    using c by (auto simp: ensureMinimumPageTypes_def Let_def)
qed

lemma distinct_fold_update:
  "distinct (map fst m) \<Longrightarrow>
   distinct (map fst (foldl (\<lambda>res (slug, t, d). AList.update (pre @ slug) (f (pre @ slug) t d) res) m pages))"
  by (induction pages arbitrary: m) (auto simp: distinct_update)

lemma distinct_add:
  assumes "distinct (map fst m)"
  shows "distinct (map fst (add_static_pages w pre pages m))"
    "distinct (map fst (add_blog_posts w tr pre pages m))"
    "distinct (map fst (add_categories w pre pages m))"
  unfolding add_static_pages_def add_blog_posts_def add_categories_def
  by (rule distinct_fold_update [OF assms])+

lemma distinct_ensure:
  "distinct (Object_keys m) \<Longrightarrow> distinct (Object_keys (ensureMinimumPageTypes w b m))"
  by (simp add: Object_keys_def ensureMinimumPageTypes_def Let_def distinct_add distinct_update)

lemma distinct_merge_slots:
  "distinct (map fst m) \<Longrightarrow> distinct (map fst (foldl merge_slot m slots))"
  by (induction slots arbitrary: m) (auto simp: merge_slot_def distinct_update split: slot.splits)

lemma distinct_process_categories:
  "distinct (map fst m) \<Longrightarrow> distinct (map fst (foldl (process_category w) m entries))"
  by (induction entries arbitrary: m) (auto simp: process_category_def distinct_merge_slots)

lemma distinct_processAllUrls:
  "processAllUrls w urls = Inr pageData \<Longrightarrow> distinct (Object_keys pageData)"
  by (auto simp: processAllUrls_def Let_def Object_keys_def distinct_process_categories
        split: if_splits sum.splits list.splits option.splits)

lemma processSitemap_result:
  assumes "processSitemap w siteUrl = Inr (pageData, stats)"
  shows "distinct (Object_keys pageData)" "stats = getPageStats pageData"
proof -
  from assms obtain urls m where m: "processAllUrls w urls = Inr m"
    and pd: "pageData = ensureMinimumPageTypes w siteUrl m
             \<or> pageData = AList.update (strip_trailing_slashes siteUrl @ ''/blog/sample-post'')
                  (sample_blog_post w (strip_trailing_slashes siteUrl @ ''/blog/sample-post''))
                  (ensureMinimumPageTypes w siteUrl m)"
    and st: "stats = getPageStats pageData"
    by (auto simp: processSitemap_def Let_def split: sum.splits if_splits)
  have "distinct (Object_keys (ensureMinimumPageTypes w siteUrl m))"
    using distinct_processAllUrls [OF m] by (rule distinct_ensure)
  with pd show "distinct (Object_keys pageData)"
    by (auto simp: Object_keys_def distinct_update)
  show "stats = getPageStats pageData" by (rule st)
qed

lemma small_site_run:
  "processSitemap small_site ''https://x''
   = Inr (small_site_pages,
          [(''all'', 14), (''product'', 0), (''blog'', 3), (''category'', 3), (''static'', 8)])"
  by code_simp

section \<open>Properties of the statistics\<close>

lemma getPageStats_step_eq:
  "getPageStats_step
     [(''all'', a), (''product'', p), (''blog'', b), (''category'', c), (''static'', s)] d
   = [(''all'', Suc a),
      (''product'', p + (if type d = Some Product then 1 else 0)),
      (''blog'', b + (if type d = Some Blog then 1 else 0)),
      (''category'', c + (if type d = Some Category then 1 else 0)),
      (''static'', s + (if type d = Some Static \<or> type d = Some Others \<or> type d = None
                        then 1 else 0))]"
proof (cases "type d")
  case None
  then show ?thesis by (simp add: getPageStats_step_def increment_def)
next
  case (Some t)
  then show ?thesis by (cases t) (simp_all add: getPageStats_step_def increment_def)
qed

lemma getPageStats_fold:
  "foldl getPageStats_step
     [(''all'', a), (''product'', p), (''blog'', b), (''category'', c), (''static'', s)] ds
   = [(''all'', a + length ds),
      (''product'', p + length (filter (\<lambda>item. type item = Some Product) ds)),
      (''blog'', b + length (filter (\<lambda>item. type item = Some Blog) ds)),
      (''category'', c + length (filter (\<lambda>item. type item = Some Category) ds)),
      (''static'', s + length (filter (\<lambda>item. type item = Some Static) ds)
                     + length (filter (\<lambda>item. type item = Some Others) ds)
                     + length (filter (\<lambda>item. type item = None) ds))]"
proof (induction ds arbitrary: a p b c s)
  case Nil
  then show ?case by simp
next
  case (Cons d ds)
  show ?case
  proof (cases "type d")
    case None
    then show ?thesis by (simp add: Cons.IH getPageStats_step_eq)
  next
    case (Some t)
    then show ?thesis by (cases t) (simp_all add: Cons.IH getPageStats_step_eq)
  qed
qed

lemma getPageStats_eq:
  "getPageStats m
   = [(''all'', length m),
      (''product'', count_type Product m),
      (''blog'', count_type Blog m),
      (''category'', count_type Category m),
      (''static'', count_type Static m + count_type Others m + count_untyped m)]"
  by (simp add: getPageStats_def getPageStats_fold count_type_def count_untyped_def Object_values_def)

lemma length_by_type:
  "length (ds :: PageData list)
   = length (filter (\<lambda>item. type item = Some Product) ds)
     + length (filter (\<lambda>item. type item = Some Blog) ds)
     + length (filter (\<lambda>item. type item = Some Category) ds)
     + length (filter (\<lambda>item. type item = Some Static) ds)
     + length (filter (\<lambda>item. type item = Some Others) ds)
     + length (filter (\<lambda>item. type item = None) ds)"
proof (induction ds)
  case Nil
  then show ?case by simp
next
  case (Cons d ds)
  show ?case
  proof (cases "type d")
    case None
    with Cons show ?thesis by simp
  next
    case (Some t)
    with Cons show ?thesis by (cases t) simp_all
  qed
qed

lemma convert_filter:
  "length (filter (\<lambda>page. type page = Some t) (convertPageDataToArray m))
   = (if t = Others then count_type Others m + count_untyped m else count_type t m)"
  unfolding convertPageDataToArray_def count_type_def count_untyped_def Object_values_def
  by (induction m) (auto split: option.splits)

lemma small_site_counts:
  "length small_site_pages = 14"
  "count_type Product small_site_pages = 0"
  "count_type Blog small_site_pages = 3"
  "count_type Category small_site_pages = 3"
  "count_type Static small_site_pages = 7"
  "count_type Others small_site_pages = 1"
  "count_untyped small_site_pages = 0"
  by code_simp+

text \<open>
  C2 (as stated, refuted). The specification says each record is counted under its own type. In
  \<^verbatim>\<open>getPageStats\<close> a record of type \<^verbatim>\<open>'others'\<close> is counted as static, and there
  is no counter for \<^verbatim>\<open>'others'\<close>: the map that the pipeline returns for the small site
  has 7 static records and 1 record of type \<^verbatim>\<open>'others'\<close>, and its summary counts 8
  static records.
\<close>

theorem getPageStats_counts_others_as_static:
  "processSitemap small_site ''https://x''
     = Inr (small_site_pages,
            [(''all'', 14), (''product'', 0), (''blog'', 3), (''category'', 3), (''static'', 8)])
   \<and> count_type Static small_site_pages = 7
   \<and> count_type Others small_site_pages = 1
   \<and> map_of (getPageStats small_site_pages) ''static'' = Some 8
   \<and> map_of (getPageStats small_site_pages) ''others'' = None"
  using small_site_run by (simp add: getPageStats_eq small_site_counts)

text \<open>
  C2 (amended). A record map that the pipeline produces (\<^verbatim>\<open>processAllUrls\<close> for the
  POST handler, \<^verbatim>\<open>processSitemap\<close>) has distinct keys, and the summary of
  \<^verbatim>\<open>processSitemap\<close> is \<^verbatim>\<open>getPageStats\<close> of its map. For a record map with distinct
  keys, both summaries have the number of keys as the total, and the total is the sum of
  the per-category counters. The POST handler counts each record under its own type (a
  record with no type under \<^verbatim>\<open>'others'\<close>); \<^verbatim>\<open>getPageStats\<close> counts product, blog and
  category records under their own type and every other record (static, others, no
  type) as static.
\<close>

theorem stats_total_and_counts:
  "(processAllUrls w urls = Inr m \<longrightarrow> distinct (Object_keys m))
   \<and> (processSitemap w siteUrl = Inr (m, stats)
        \<longrightarrow> distinct (Object_keys m) \<and> stats = getPageStats m)
   \<and> (distinct (Object_keys m) \<longrightarrow>
       map_of (getPageStats m) ''all'' = Some (card (set (Object_keys m)))
     \<and> map_of (getPageStats m) ''product'' = Some (count_type Product m)
     \<and> map_of (getPageStats m) ''blog'' = Some (count_type Blog m)
     \<and> map_of (getPageStats m) ''category'' = Some (count_type Category m)
     \<and> map_of (getPageStats m) ''static''
         = Some (count_type Static m + count_type Others m + count_untyped m)
     \<and> card (set (Object_keys m))
         = count_type Product m + count_type Blog m + count_type Category m
           + (count_type Static m + count_type Others m + count_untyped m)
     \<and> map_of (POST_stats (convertPageDataToArray m)) ''total''
         = Some (card (set (Object_keys m)))
     \<and> map_of (POST_stats (convertPageDataToArray m)) ''product'' = Some (count_type Product m)
     \<and> map_of (POST_stats (convertPageDataToArray m)) ''blog'' = Some (count_type Blog m)
     \<and> map_of (POST_stats (convertPageDataToArray m)) ''category''
         = Some (count_type Category m)
     \<and> map_of (POST_stats (convertPageDataToArray m)) ''static'' = Some (count_type Static m)
     \<and> map_of (POST_stats (convertPageDataToArray m)) ''others''
         = Some (count_type Others m + count_untyped m))"
proof (intro conjI impI)
  assume "processAllUrls w urls = Inr m"
  then show "distinct (Object_keys m)" by (rule distinct_processAllUrls)
next
  assume "processSitemap w siteUrl = Inr (m, stats)"
  then show "distinct (Object_keys m)" "stats = getPageStats m"
    by (rule processSitemap_result)+
next
  assume d: "distinct (Object_keys m)"
  have card: "card (set (Object_keys m)) = length m"
    using distinct_card [OF d] by (simp add: Object_keys_def)
  have len: "length m = count_type Product m + count_type Blog m + count_type Category m
         + (count_type Static m + count_type Others m + count_untyped m)"
    using length_by_type [of "Object_values m"]
    by (simp add: count_type_def count_untyped_def Object_values_def)
  have conv: "length (convertPageDataToArray m) = length m"
    by (simp add: convertPageDataToArray_def Object_values_def)
  show "map_of (getPageStats m) ''all'' = Some (card (set (Object_keys m)))"
    "map_of (getPageStats m) ''product'' = Some (count_type Product m)"
    "map_of (getPageStats m) ''blog'' = Some (count_type Blog m)"
    "map_of (getPageStats m) ''category'' = Some (count_type Category m)"
    "map_of (getPageStats m) ''static''
       = Some (count_type Static m + count_type Others m + count_untyped m)"
    by (simp_all add: card getPageStats_eq)
  show "card (set (Object_keys m))
       = count_type Product m + count_type Blog m + count_type Category m
         + (count_type Static m + count_type Others m + count_untyped m)"
    using len by (simp add: card)
  show "map_of (POST_stats (convertPageDataToArray m)) ''total''
       = Some (card (set (Object_keys m)))"
    "map_of (POST_stats (convertPageDataToArray m)) ''product'' = Some (count_type Product m)"
    "map_of (POST_stats (convertPageDataToArray m)) ''blog'' = Some (count_type Blog m)"
    "map_of (POST_stats (convertPageDataToArray m)) ''category''
       = Some (count_type Category m)"
    "map_of (POST_stats (convertPageDataToArray m)) ''static'' = Some (count_type Static m)"
    "map_of (POST_stats (convertPageDataToArray m)) ''others''
       = Some (count_type Others m + count_untyped m)"
    by (simp_all add: card POST_stats_def convert_filter conv)
qed

theorem stats_total_and_counts_witness:
  "processSitemap small_site ''https://x''
     = Inr (small_site_pages,
            [(''all'', 14), (''product'', 0), (''blog'', 3), (''category'', 3), (''static'', 8)])
   \<and> distinct (Object_keys small_site_pages)
   \<and> card (set (Object_keys small_site_pages)) = 14
   \<and> getPageStats small_site_pages
       = [(''all'', 14), (''product'', 0), (''blog'', 3), (''category'', 3), (''static'', 8)]
   \<and> map_of (POST_stats (convertPageDataToArray small_site_pages)) ''total'' = Some 14
   \<and> map_of (POST_stats (convertPageDataToArray small_site_pages)) ''static'' = Some 7
   \<and> map_of (POST_stats (convertPageDataToArray small_site_pages)) ''others'' = Some 1"
proof -
  note t = stats_total_and_counts [of small_site "[]" small_site_pages "''https://x''"
      "[(''all'', 14), (''product'', 0), (''blog'', 3), (''category'', 3), (''static'', 8)]"]
  have d: "distinct (Object_keys small_site_pages)"
    and g: "[(''all'', 14), (''product'', 0), (''blog'', 3), (''category'', 3), (''static'', 8)]
            = getPageStats small_site_pages"
    using t small_site_run by simp_all
  have c: "card (set (Object_keys small_site_pages)) = 14"
    using distinct_card [OF d] small_site_counts(1) by (simp add: Object_keys_def)
  show ?thesis
    using t d c g small_site_run by (simp add: small_site_counts)
qed

section \<open>Properties of the coverage guarantee\<close>

text \<open>
  C8 (as stated, refuted). The specification says every supported category has a count of at
  least 1 once a URL was classified. For a site whose sitemap lists a static page and a
  page of no category, the run completes with no product record: the product count is 0
  (and the summary has no counter for \<^verbatim>\<open>'others'\<close>).
\<close>

theorem processSitemap_product_can_be_empty:
  "categorizeUrl small_site (JStr ''https://x/about'') = Inr Static
   \<and> processSitemap small_site ''https://x''
       = Inr (small_site_pages,
              [(''all'', 14), (''product'', 0), (''blog'', 3), (''category'', 3), (''static'', 8)])
   \<and> count_type Product small_site_pages = 0"
proof -
  have "categorizeUrl small_site (JStr ''https://x/about'') = Inr Static" by code_simp
  then show ?thesis using small_site_run by (simp add: small_site_counts)
qed

text \<open>
  C8 (amended). Whenever \<^verbatim>\<open>processSitemap\<close> completes, the counts of static, blog and
  category records are each at least 1, in the summary and in the record map: the
  injection always adds static pages and blog posts, and adds category pages when fewer
  than three category records exist. Nothing injects a product record.
\<close>

theorem processSitemap_coverage:
  "processSitemap w siteUrl = Inr (pageData, stats) \<longrightarrow>
     (\<exists>s b c. map_of stats ''static'' = Some s \<and> 1 \<le> s
             \<and> map_of stats ''blog'' = Some b \<and> 1 \<le> b
             \<and> map_of stats ''category'' = Some c \<and> 1 \<le> c)
     \<and> 1 \<le> count_type Static pageData
     \<and> 1 \<le> count_type Blog pageData
     \<and> 1 \<le> count_type Category pageData"
proof
  assume p: "processSitemap w siteUrl = Inr (pageData, stats)"
  have hb: "list_ex (\<lambda>item. type item = Some Blog)
              (Object_values (ensureMinimumPageTypes w siteUrl m))" for m
    by (simp only: list_ex_count_type ensure_has_blog)
  from p obtain m where pd: "pageData = ensureMinimumPageTypes w siteUrl m"
    and st: "stats = getPageStats pageData"
    by (auto simp: processSitemap_def Let_def hb split: sum.splits)
  have "1 \<le> count_type Static pageData" "1 \<le> count_type Blog pageData"
    "1 \<le> count_type Category pageData"
    by (simp_all only: pd ensure_has_static ensure_has_blog ensure_has_category)
  then show "(\<exists>s b c. map_of stats ''static'' = Some s \<and> 1 \<le> s
             \<and> map_of stats ''blog'' = Some b \<and> 1 \<le> b
             \<and> map_of stats ''category'' = Some c \<and> 1 \<le> c)
     \<and> 1 \<le> count_type Static pageData
     \<and> 1 \<le> count_type Blog pageData
     \<and> 1 \<le> count_type Category pageData"
    by (simp add: st getPageStats_eq)
qed

theorem processSitemap_coverage_witness:
  "processSitemap small_site ''https://x''
   = Inr (small_site_pages,
          [(''all'', 14), (''product'', 0), (''blog'', 3), (''category'', 3), (''static'', 8)])
   \<and> 1 \<le> count_type Static small_site_pages
   \<and> 1 \<le> count_type Blog small_site_pages
   \<and> 1 \<le> count_type Category small_site_pages"
  using processSitemap_coverage [THEN mp, OF small_site_run] small_site_run
  by simp

section \<open>Properties of the cap\<close>







end
